theory Spec2Isabelle
  imports
    Main
    "HOL-Library.Char_ord"
    "HOL-Library.List_Lexorder"
    "HOL-Library.Multiset"
    "HOL-Library.Product_Lexorder"
begin

section \<open>The Snowflake adapter of sqlit\<close>

text \<open>
  A shallow embedding of \<^verbatim>\<open>src/sqlit/db/adapters/snowflake.py\<close>, class
  \<^verbatim>\<open>SnowflakeAdapter\<close>. Python strings are \<^typ>\<open>string\<close>, Python's unbounded
  integers are \<^typ>\<open>int\<close>, an optional argument (\<^verbatim>\<open>str | None\<close>) is an
  \<^typ>\<open>'a option\<close>, and a raised exception is the left summand of a result.
\<close>

subsection \<open>Python string primitives used by the adapter\<close>

text \<open>The double-quote character, written \<^verbatim>\<open>'"'\<close> in the source.\<close>

definition dq :: char where
  "dq = CHR 0x22"

text \<open>
  \<^verbatim>\<open>s.replace(old, new)\<close> where \<^verbatim>\<open>old\<close> is a single character: every
  occurrence of the character is replaced, from left to right.
\<close>

definition str_replace_char :: "char \<Rightarrow> string \<Rightarrow> string \<Rightarrow> string" where
  "str_replace_char old new s = concat (map (\<lambda>c. if c = old then new else [c]) s)"

text \<open>
  \<^verbatim>\<open>x or default\<close> for \<^verbatim>\<open>x : str | None\<close>: both \<^verbatim>\<open>None\<close> and the
  empty string are falsy.
\<close>

fun str_or :: "string option \<Rightarrow> string \<Rightarrow> string" where
  "str_or None d = d"
| "str_or (Some s) d = (if s = [] then d else s)"

text \<open>
  The decimal rendering of an integer, which an f-string applies to \<^verbatim>\<open>{limit}\<close>
  (\<^verbatim>\<open>format(limit, '')\<close>, that is \<^verbatim>\<open>str(limit)\<close> for an \<^verbatim>\<open>int\<close>).
\<close>

definition digit_char :: "nat \<Rightarrow> char" where
  "digit_char d = ''0123456789'' ! d"

fun str_nat :: "nat \<Rightarrow> string" where
  "str_nat n = (if n < 10 then [digit_char n] else str_nat (n div 10) @ [digit_char (n mod 10)])"

declare str_nat.simps [simp del]

definition str_int :: "int \<Rightarrow> string" where
  "str_int i = (if i < 0 then CHR ''-'' # str_nat (nat (- i)) else str_nat (nat i))"

subsection \<open>Capability descriptor\<close>

definition default_schema :: string where
  "default_schema = ''PUBLIC''"

subsection \<open>Identifier quoting and the preview query\<close>

text \<open>
  \<^verbatim>\<open>
  def quote_identifier(self, name: str) -> str:
      escaped = name.replace('"', '""')
      return f'"{escaped}"'
  \<close>
\<close>

definition quote_identifier :: "string \<Rightarrow> string" where
  "quote_identifier name =
     (let escaped = str_replace_char dq [dq, dq] name
      in [dq] @ escaped @ [dq])"

text \<open>
  \<^verbatim>\<open>
  def build_select_query(self, table, limit, database=None, schema=None) -> str:
      schema = schema or "PUBLIC"
      return f'SELECT * FROM "{schema}"."{table}" LIMIT {limit}'
  \<close>
  The f-string interpolates \<^verbatim>\<open>schema\<close> and \<^verbatim>\<open>table\<close> between literal
  double quotes; \<^verbatim>\<open>quote_identifier\<close> is not called, and \<^verbatim>\<open>database\<close> is
  not read.
\<close>

definition build_select_query :: "string \<Rightarrow> int \<Rightarrow> string option \<Rightarrow> string option \<Rightarrow> string" where
  \<open>build_select_query table limit database schema =
     (let schema = str_or schema ''PUBLIC''
      in ''SELECT * FROM "'' @ schema @ ''"."'' @ table @ ''" LIMIT '' @ str_int limit)\<close>

text \<open>
  The query the interface contract asks for: every identifier component goes through
  \<^const>\<open>quote_identifier\<close>, and the schema is the given one, or the default schema
  when it is omitted (\<^verbatim>\<open>None\<close>). This definition follows the specification's
  words; it is what \<^const>\<open>build_select_query\<close> is compared with.
\<close>

definition build_select_query_spec :: "string \<Rightarrow> int \<Rightarrow> string option \<Rightarrow> string" where
  "build_select_query_spec table limit schema =
     ''SELECT * FROM '' @ quote_identifier (case schema of None \<Rightarrow> default_schema | Some s \<Rightarrow> s)
       @ ''.'' @ quote_identifier table @ '' LIMIT '' @ str_int limit"

text \<open>
  Reading a quoted identifier back, as a SQL lexer does: the text must open and close with
  a double quote, and between them every double quote must be one of a doubled pair,
  which stands for one quote character. Anything else is not a quoted identifier.
\<close>

fun collapse_doubled :: "string \<Rightarrow> string option" where
  "collapse_doubled [] = Some []"
| "collapse_doubled [c] = (if c = dq then None else Some [c])"
| "collapse_doubled (c # d # s) =
     (if c = dq then (if d = dq then map_option ((#) dq) (collapse_doubled s) else None)
      else map_option ((#) c) (collapse_doubled (d # s)))"

definition strip_outer_quotes :: "string \<Rightarrow> string option" where
  "strip_outer_quotes s =
     (if 2 \<le> length s \<and> hd s = dq \<and> last s = dq then Some (butlast (tl s)) else None)"

definition unquote_identifier :: "string \<Rightarrow> string option" where
  "unquote_identifier s =
     (case strip_outer_quotes s of None \<Rightarrow> None | Some body \<Rightarrow> collapse_doubled body)"

subsection \<open>The driver: connection and cursor\<close>

text \<open>
  The adapter reaches the warehouse through a connection of
  \<^verbatim>\<open>snowflake-connector-python\<close>, a Python DB-API (PEP 249) driver that is not part
  of the repository. What the adapter uses of it is modelled here.

  A value of a result row is \<^verbatim>\<open>None\<close>, an integer or a string. A row is the
  sequence of its values. A column descriptor is a tuple whose component 0 is the
  column's name (the adapter reads nothing else of it).
\<close>

datatype sql_value = SqlNull | SqlInt int | SqlStr string

type_synonym row = "sql_value list"

type_synonym column_descriptor = "string \<times> int"

datatype py_error =
  QueryFailure string
| ProgrammingError
| IndexError

text \<open>
  The state of a cursor after \<^verbatim>\<open>cursor.execute\<close>: its
  \<^verbatim>\<open>description\<close> (\<^verbatim>\<open>None\<close> when the statement has no result-set
  descriptor), the rows not fetched yet, and its \<^verbatim>\<open>rowcount\<close>
  (\<^verbatim>\<open>None\<close> when the backend reports none).
\<close>

record cursor =
  description :: "column_descriptor list option"
  pending :: "row list"
  rowcount :: "int option"

text \<open>
  A connection answers a statement and its parameters (the empty sequence when
  \<^verbatim>\<open>execute\<close> is called with the statement alone) with the state of the cursor it
  was executed on, or with the error the backend raised. \<^verbatim>\<open>cursor.execute\<close>
  discards whatever the cursor held before.
\<close>

type_synonym connection = "string \<Rightarrow> sql_value list \<Rightarrow> py_error + cursor"

text \<open>\<^verbatim>\<open>cursor.fetchall()\<close>: all the pending rows; none is left.\<close>

definition fetchall :: "cursor \<Rightarrow> row list \<times> cursor" where
  "fetchall c = (pending c, c\<lparr>pending := []\<rparr>)"

text \<open>
  \<^verbatim>\<open>cursor.fetchmany(size)\<close>: the first \<open>n\<close> pending rows for size \<open>n\<close>, or all of them when
  there are fewer. The Snowflake connector raises \<^verbatim>\<open>ProgrammingError\<close> for a
  negative size.
\<close>

definition fetchmany :: "cursor \<Rightarrow> int \<Rightarrow> py_error + row list \<times> cursor" where
  "fetchmany c n =
     (if n < 0 then Inl ProgrammingError
      else Inr (take (nat n) (pending c), c\<lparr>pending := drop (nat n) (pending c)\<rparr>))"

text \<open>
  \<^verbatim>\<open>xs[:m]\<close>: the first \<open>m\<close> elements, and for a negative \<open>m\<close> all but the last
  \<open>- m\<close>.
\<close>

definition slice_to :: "'a list \<Rightarrow> int \<Rightarrow> 'a list" where
  "slice_to xs m = (if 0 \<le> m then take (nat m) xs else take (nat (int (length xs) + m)) xs)"

text \<open>\<^verbatim>\<open>row[i]\<close> for a constant index \<open>i \<ge> 0\<close>; out of range raises.\<close>

definition row_get :: "row \<Rightarrow> nat \<Rightarrow> py_error + sql_value" where
  "row_get r i = (if i < length r then Inr (r ! i) else Inl IndexError)"

text \<open>
  A list comprehension \<^verbatim>\<open>[f(x) for x in xs]\<close> whose body can raise: the first
  exception ends it.
\<close>

fun comprehension :: "('a \<Rightarrow> py_error + 'b) \<Rightarrow> 'a list \<Rightarrow> py_error + 'b list" where
  "comprehension f [] = Inr []"
| "comprehension f (x # xs) =
     (case f x of
        Inl e \<Rightarrow> Inl e
      | Inr y \<Rightarrow> (case comprehension f xs of Inl e \<Rightarrow> Inl e | Inr ys \<Rightarrow> Inr (y # ys)))"

subsection \<open>Query executor\<close>

text \<open>
  \<^verbatim>\<open>
  def execute_query(self, conn, query, max_rows=None):
      cursor = conn.cursor()
      cursor.execute(query)
      columns = []
      if cursor.description:
          columns = [col[0] for col in cursor.description]
      if max_rows is not None:
          rows = cursor.fetchmany(max_rows + 1)
          truncated = len(rows) > max_rows
          if truncated:
              rows = rows[:max_rows]
      else:
          rows = cursor.fetchall()
          truncated = False
      return columns, [tuple(row) for row in rows], truncated
  \<close>
  \<open>run_execute_query\<close> is the body with the cursor's final state returned beside the
  result, so that what was fetched from the cursor can be stated; \<open>execute_query\<close> is
  what the caller gets. \<^verbatim>\<open>tuple(row)\<close> leaves a row of values as it is.
\<close>

type_synonym query_result = "string list \<times> row list \<times> bool"

definition run_execute_query ::
  "connection \<Rightarrow> string \<Rightarrow> int option \<Rightarrow> py_error + query_result \<times> cursor" where
  "run_execute_query conn query max_rows =
     (case conn query [] of
        Inl e \<Rightarrow> Inl e
      | Inr cur \<Rightarrow>
          (let columns =
                 (case description cur of
                    None \<Rightarrow> []
                  | Some ds \<Rightarrow> if ds = [] then [] else map fst ds)
           in case max_rows of
                Some m \<Rightarrow>
                  (case fetchmany cur (m + 1) of
                     Inl e \<Rightarrow> Inl e
                   | Inr (rows, cur') \<Rightarrow>
                       (let truncated = (m < int (length rows));
                            rows = (if truncated then slice_to rows m else rows)
                        in Inr ((columns, rows, truncated), cur')))
              | None \<Rightarrow>
                  (case fetchall cur of
                     (rows, cur') \<Rightarrow> Inr ((columns, rows, False), cur'))))"

definition execute_query :: "connection \<Rightarrow> string \<Rightarrow> int option \<Rightarrow> py_error + query_result" where
  "execute_query conn query max_rows =
     (case run_execute_query conn query max_rows of
        Inl e \<Rightarrow> Inl e
      | Inr (result, cur') \<Rightarrow> Inr result)"

text \<open>The names of a cursor's column descriptors, in the descriptors' order.\<close>

definition column_names :: "cursor \<Rightarrow> string list" where
  "column_names cur = (case description cur of None \<Rightarrow> [] | Some ds \<Rightarrow> map fst ds)"

text \<open>The number of rows a run of the executor took from the cursor.\<close>

definition rows_fetched :: "cursor \<Rightarrow> cursor \<Rightarrow> nat" where
  "rows_fetched before after = length (pending before) - length (pending after)"

text \<open>
  \<^verbatim>\<open>
  def execute_non_query(self, conn, query) -> int:
      cursor = conn.cursor()
      cursor.execute(query)
      return int(cursor.rowcount) if cursor.rowcount is not None else -1
  \<close>
\<close>

definition execute_non_query :: "connection \<Rightarrow> string \<Rightarrow> py_error + int" where
  "execute_non_query conn query =
     (case conn query [] of
        Inl e \<Rightarrow> Inl e
      | Inr cur \<Rightarrow> Inr (case rowcount cur of Some n \<Rightarrow> n | None \<Rightarrow> - 1))"

subsection \<open>Metadata inspector\<close>

text \<open>
  Modelled from the spec: the record shapes \<^verbatim>\<open>TableInfo\<close> and
  \<^verbatim>\<open>ColumnInfo\<close>, which the adapter imports from \<^verbatim>\<open>base.py\<close> (not among
  the sources). A \<^verbatim>\<open>TableInfo\<close> is the pair (schema name, table name), which is
  how the adapter builds it; a \<^verbatim>\<open>ColumnInfo\<close> has a name, a data-type label and
  a primary-key flag, the three keyword arguments the adapter passes. The adapter stores
  the values of the fetched rows as they are.
\<close>

type_synonym table_info = "sql_value \<times> sql_value"

record column_info =
  name :: sql_value
  data_type :: sql_value
  is_primary_key :: bool

text \<open>
  \<^verbatim>\<open>f"{self.quote_identifier(database)}." if database else ""\<close>: \<^verbatim>\<open>None\<close>
  and the empty string are falsy.
\<close>

fun db_prefix :: "string option \<Rightarrow> string" where
  "db_prefix None = []"
| "db_prefix (Some d) = (if d = [] then [] else quote_identifier d @ ''.'')"

text \<open>The tuple \<^verbatim>\<open>(row[i], row[j])\<close>, its components evaluated left to right.\<close>

definition row_pair :: "nat \<Rightarrow> nat \<Rightarrow> row \<Rightarrow> py_error + table_info" where
  "row_pair i j r =
     (case row_get r i of
        Inl e \<Rightarrow> Inl e
      | Inr a \<Rightarrow> (case row_get r j of Inl e \<Rightarrow> Inl e | Inr b \<Rightarrow> Inr (a, b)))"

text \<open>
  The first of the two definitions of \<^verbatim>\<open>get_tables\<close> in the class body (lines
  108 to 122):
  \<^verbatim>\<open>
  def get_tables(self, conn, database=None):
      cursor = conn.cursor()
      query = "SHOW TABLES"
      if database:
          query += f" IN DATABASE {self.quote_identifier(database)}"
      cursor.execute(query)
      return [(row[3], row[1]) for row in cursor.fetchall()]
  \<close>
\<close>

definition show_tables_sql :: "string option \<Rightarrow> string" where
  "show_tables_sql database =
     ''SHOW TABLES'' @
     (case database of
        None \<Rightarrow> []
      | Some d \<Rightarrow> if d = [] then [] else '' IN DATABASE '' @ quote_identifier d)"

definition get_tables_show_tables :: "connection \<Rightarrow> string option \<Rightarrow> py_error + table_info list" where
  "get_tables_show_tables conn database =
     (case conn (show_tables_sql database) [] of
        Inl e \<Rightarrow> Inl e
      | Inr cur \<Rightarrow> (case fetchall cur of (rows, cur') \<Rightarrow> comprehension (row_pair 3 1) rows))"

text \<open>
  \<^verbatim>\<open>
  def get_views(self, conn, database=None):
      cursor = conn.cursor()
      query = "SHOW VIEWS"
      if database:
          query += f" IN DATABASE {self.quote_identifier(database)}"
      cursor.execute(query)
      sql = "SELECT table_schema, table_name FROM information_schema.views"
      if database:
          sql = f"SELECT table_schema, table_name FROM {self.quote_identifier(database)}.information_schema.views"
      sql += " WHERE table_schema != 'INFORMATION_SCHEMA' ORDER BY table_schema, table_name"
      cursor.execute(sql)
      return [(row[0], row[1]) for row in cursor.fetchall()]
  \<close>
\<close>

definition show_views_sql :: "string option \<Rightarrow> string" where
  "show_views_sql database =
     ''SHOW VIEWS'' @
     (case database of
        None \<Rightarrow> []
      | Some d \<Rightarrow> if d = [] then [] else '' IN DATABASE '' @ quote_identifier d)"

definition views_sql :: "string option \<Rightarrow> string" where
  \<open>views_sql database =
     (case database of
        None \<Rightarrow> ''SELECT table_schema, table_name FROM information_schema.views''
      | Some d \<Rightarrow>
          if d = [] then ''SELECT table_schema, table_name FROM information_schema.views''
          else ''SELECT table_schema, table_name FROM '' @ quote_identifier d @
               ''.information_schema.views'') @
     '' WHERE table_schema != 'INFORMATION_SCHEMA' ORDER BY table_schema, table_name''\<close>

definition get_views :: "connection \<Rightarrow> string option \<Rightarrow> py_error + table_info list" where
  "get_views conn database =
     (case conn (show_views_sql database) [] of
        Inl e \<Rightarrow> Inl e
      | Inr shown \<Rightarrow>
          (case conn (views_sql database) [] of
             Inl e \<Rightarrow> Inl e
           | Inr cur \<Rightarrow> (case fetchall cur of (rows, cur') \<Rightarrow> comprehension (row_pair 0 1) rows)))"

text \<open>
  \<^verbatim>\<open>
  def get_tables_via_info_schema(self, conn, database=None):
      cursor = conn.cursor()
      db_prefix = f"{self.quote_identifier(database)}." if database else ""
      sql = f"SELECT table_schema, table_name FROM {db_prefix}information_schema.tables WHERE table_type = 'BASE TABLE' AND table_schema != 'INFORMATION_SCHEMA' ORDER BY table_schema, table_name"
      cursor.execute(sql)
      return [(row[0], row[1]) for row in cursor.fetchall()]
  \<close>
\<close>

definition tables_sql :: "string option \<Rightarrow> string" where
  \<open>tables_sql database =
     ''SELECT table_schema, table_name FROM '' @ db_prefix database @
     ''information_schema.tables WHERE table_type = 'BASE TABLE' AND table_schema != 'INFORMATION_SCHEMA' ORDER BY table_schema, table_name''\<close>

definition get_tables_via_info_schema :: "connection \<Rightarrow> string option \<Rightarrow> py_error + table_info list" where
  "get_tables_via_info_schema conn database =
     (case conn (tables_sql database) [] of
        Inl e \<Rightarrow> Inl e
      | Inr cur \<Rightarrow> (case fetchall cur of (rows, cur') \<Rightarrow> comprehension (row_pair 0 1) rows))"

text \<open>
  The second definition of \<^verbatim>\<open>get_tables\<close> in the class body (lines 157 and 158):
  \<^verbatim>\<open>
  def get_tables(self, conn, database=None):
      return self.get_tables_via_info_schema(conn, database)
  \<close>
\<close>

definition get_tables :: "connection \<Rightarrow> string option \<Rightarrow> py_error + table_info list" where
  "get_tables conn database = get_tables_via_info_schema conn database"

text \<open>
  A class body is executed top to bottom, each \<^verbatim>\<open>def\<close> binding its name in the
  class namespace; a later binding of a name replaces the earlier one. These are the
  bindings of the methods that take a connection and a database and return a list of
  \<^verbatim>\<open>TableInfo\<close>, in the order of the source.
\<close>

definition class_body :: "(string \<times> (connection \<Rightarrow> string option \<Rightarrow> py_error + table_info list)) list" where
  "class_body =
     [(''get_tables'', get_tables_show_tables),
      (''get_views'', get_views),
      (''get_tables_via_info_schema'', get_tables_via_info_schema),
      (''get_tables'', get_tables)]"

definition class_namespace :: "string \<rightharpoonup> (connection \<Rightarrow> string option \<Rightarrow> py_error + table_info list)" where
  "class_namespace = foldl (\<lambda>ns (k, v). ns(k \<mapsto> v)) Map.empty class_body"

text \<open>
  \<^verbatim>\<open>
  def get_columns(self, conn, table, database=None, schema=None):
      cursor = conn.cursor()
      schema = schema or "PUBLIC"
      db_prefix = f"{self.quote_identifier(database)}." if database else ""
      sql = f"""
          SELECT column_name, data_type, ordinal_position
          FROM {db_prefix}information_schema.columns
          WHERE table_schema = %s AND table_name = %s
          ORDER BY ordinal_position
      """
      cursor.execute(sql, (schema, table))
      pk_sql = f"""
          SELECT kcu.column_name
          FROM {db_prefix}information_schema.table_constraints tc
          JOIN {db_prefix}information_schema.key_column_usage kcu
            ON tc.constraint_name = kcu.constraint_name
            AND tc.table_schema = kcu.table_schema
          WHERE tc.constraint_type = 'PRIMARY KEY'
          AND tc.table_schema = %s AND tc.table_name = %s
      """
      rows = cursor.fetchall()
      cursor.execute(pk_sql, (schema, table))
      pk_columns = {row[0] for row in cursor.fetchall()}
      return [
          ColumnInfo(name=row[0], data_type=row[1], is_primary_key=row[0] in pk_columns)
          for row in rows
      ]
  \<close>
  The two statement texts keep the line breaks and the indentation of the source.
\<close>

definition columns_sql :: "string option \<Rightarrow> string" where
  \<open>columns_sql database =
     ''\<newline>'' @
     ''            SELECT column_name, data_type, ordinal_position\<newline>'' @
     ''            FROM '' @ db_prefix database @ ''information_schema.columns\<newline>'' @
     ''            WHERE table_schema = %s AND table_name = %s\<newline>'' @
     ''            ORDER BY ordinal_position\<newline>'' @
     ''        ''\<close>

definition pk_sql :: "string option \<Rightarrow> string" where
  \<open>pk_sql database =
     ''\<newline>'' @
     ''            SELECT kcu.column_name\<newline>'' @
     ''            FROM '' @ db_prefix database @ ''information_schema.table_constraints tc\<newline>'' @
     ''            JOIN '' @ db_prefix database @ ''information_schema.key_column_usage kcu\<newline>'' @
     ''              ON tc.constraint_name = kcu.constraint_name\<newline>'' @
     ''              AND tc.table_schema = kcu.table_schema\<newline>'' @
     ''            WHERE tc.constraint_type = 'PRIMARY KEY'\<newline>'' @
     ''            AND tc.table_schema = %s AND tc.table_name = %s\<newline>'' @
     ''        ''\<close>

definition column_of_row :: "sql_value set \<Rightarrow> row \<Rightarrow> py_error + column_info" where
  "column_of_row pk_columns r =
     (case row_get r 0 of
        Inl e \<Rightarrow> Inl e
      | Inr n \<Rightarrow>
          (case row_get r 1 of
             Inl e \<Rightarrow> Inl e
           | Inr t \<Rightarrow>
               (case row_get r 0 of
                  Inl e \<Rightarrow> Inl e
                | Inr n' \<Rightarrow> Inr \<lparr>name = n, data_type = t, is_primary_key = (n' \<in> pk_columns)\<rparr>)))"

definition get_columns ::
  "connection \<Rightarrow> string \<Rightarrow> string option \<Rightarrow> string option \<Rightarrow> py_error + column_info list" where
  "get_columns conn table database schema =
     (let schema = str_or schema ''PUBLIC''
      in case conn (columns_sql database) [SqlStr schema, SqlStr table] of
           Inl e \<Rightarrow> Inl e
         | Inr cur \<Rightarrow>
             (case fetchall cur of
                (rows, cur') \<Rightarrow>
                  (case conn (pk_sql database) [SqlStr schema, SqlStr table] of
                     Inl e \<Rightarrow> Inl e
                   | Inr pk_cur \<Rightarrow>
                       (case fetchall pk_cur of
                          (pk_rows, pk_cur') \<Rightarrow>
                            (case comprehension (\<lambda>r. row_get r 0) pk_rows of
                               Inl e \<Rightarrow> Inl e
                             | Inr pk_names \<Rightarrow>
                                 comprehension (column_of_row (set pk_names)) rows)))))"

subsection \<open>Catalog kinds the warehouse does not have\<close>

text \<open>
  \<^verbatim>\<open>IndexInfo\<close> and \<^verbatim>\<open>TriggerInfo\<close> are declared in \<^verbatim>\<open>base.py\<close>; the
  adapter never builds one, so they are left abstract. \<^verbatim>\<open>get_indexes\<close> and
  \<^verbatim>\<open>get_triggers\<close> consist of the single statement \<^verbatim>\<open>return []\<close>: they
  touch neither the connection nor the database argument.
\<close>

definition get_indexes :: "connection \<Rightarrow> string option \<Rightarrow> py_error + 'index_info list" where
  "get_indexes conn database = Inr []"

definition get_triggers :: "connection \<Rightarrow> string option \<Rightarrow> py_error + 'trigger_info list" where
  "get_triggers conn database = Inr []"

section \<open>A reference warehouse\<close>

text \<open>
  The warehouse behind a connection is not part of the repository. To state what the
  adapter's catalog statements return, this section gives the subset of SQL they are
  written in its standard meaning over the information-schema views they read:
  a lexer and a parser for
  \<^verbatim>\<open>SELECT columns FROM view [JOIN view ON conditions] [WHERE conditions] [ORDER BY columns]\<close>
  and an evaluator over a catalog. Keywords, view names and column names are recognised
  as the adapter writes them. Any other statement is refused with an error.
\<close>

subsection \<open>Catalogs\<close>

text \<open>
  The rows of the four information-schema views the adapter reads, with the columns it
  names. A warehouse has a current database and the databases it knows by name.
\<close>

record table_entry =
  t_schema :: string
  t_name :: string
  t_type :: string

record column_entry =
  c_schema :: string
  c_table :: string
  c_name :: string
  c_data_type :: string
  c_ordinal :: int

record constraint_entry =
  tc_constraint :: string
  tc_schema :: string
  tc_table :: string
  tc_type :: string

record key_usage_entry =
  kcu_constraint :: string
  kcu_schema :: string
  kcu_table :: string
  kcu_column :: string

record catalog =
  tables_view :: "table_entry list"
  columns_view :: "column_entry list"
  table_constraints_view :: "constraint_entry list"
  key_column_usage_view :: "key_usage_entry list"

record warehouse =
  current_database :: catalog
  databases :: "string \<rightharpoonup> catalog"

type_synonym view_row = "(string \<times> sql_value) list"

text \<open>The row of each view for an entry of the catalog.\<close>

definition tables_row :: "table_entry \<Rightarrow> view_row" where
  "tables_row t = [(''table_schema'', SqlStr (t_schema t)),
                   (''table_name'', SqlStr (t_name t)),
                   (''table_type'', SqlStr (t_type t))]"

definition columns_row :: "column_entry \<Rightarrow> view_row" where
  "columns_row c = [(''table_schema'', SqlStr (c_schema c)),
                    (''table_name'', SqlStr (c_table c)),
                    (''column_name'', SqlStr (c_name c)),
                    (''data_type'', SqlStr (c_data_type c)),
                    (''ordinal_position'', SqlInt (c_ordinal c))]"

definition table_constraints_row :: "constraint_entry \<Rightarrow> view_row" where
  "table_constraints_row k = [(''constraint_name'', SqlStr (tc_constraint k)),
                              (''table_schema'', SqlStr (tc_schema k)),
                              (''table_name'', SqlStr (tc_table k)),
                              (''constraint_type'', SqlStr (tc_type k))]"

definition key_column_usage_row :: "key_usage_entry \<Rightarrow> view_row" where
  "key_column_usage_row u = [(''constraint_name'', SqlStr (kcu_constraint u)),
                             (''table_schema'', SqlStr (kcu_schema u)),
                             (''table_name'', SqlStr (kcu_table u)),
                             (''column_name'', SqlStr (kcu_column u))]"

definition view_rows :: "catalog \<Rightarrow> string \<Rightarrow> view_row list option" where
  "view_rows cat v =
     (if v = ''tables'' then Some (map tables_row (tables_view cat))
      else if v = ''columns'' then Some (map columns_row (columns_view cat))
      else if v = ''table_constraints'' then
        Some (map table_constraints_row (table_constraints_view cat))
      else if v = ''key_column_usage'' then
        Some (map key_column_usage_row (key_column_usage_view cat))
      else None)"

text \<open>
  The tables the adapter's statement asks for: base tables outside the information schema.
\<close>

definition is_listed_table :: "table_entry \<Rightarrow> bool" where
  "is_listed_table t = (t_type t = ''BASE TABLE'' \<and> t_schema t \<noteq> ''INFORMATION_SCHEMA'')"

text \<open>
  The pairs of a constraint and a key-column-usage row that the adapter's key statement
  joins and keeps for schema \<open>s\<close> and table \<open>t\<close>.
\<close>

definition key_pairs :: "catalog \<Rightarrow> string \<Rightarrow> string \<Rightarrow> (constraint_entry \<times> key_usage_entry) list" where
  "key_pairs cat s t =
     filter (\<lambda>(k, u). tc_type k = ''PRIMARY KEY'' \<and> tc_schema k = s \<and> tc_table k = t)
       (filter (\<lambda>(k, u). tc_constraint k = kcu_constraint u \<and> tc_schema k = kcu_schema u)
          (List.product (table_constraints_view cat) (key_column_usage_view cat)))"

subsection \<open>Lexer\<close>

datatype keyword = SELECT | FROM | JOIN | ON | WHERE | AND | ORDER | BY

datatype token =
  Keyword keyword
| Word string
| Quoted string
| Constant sql_value
| Placeholder
| Comma
| Dot
| Eq
| Neq

definition sq :: char where
  "sq = CHR 0x27"

definition is_space :: "char \<Rightarrow> bool" where
  "is_space c = (c = CHR '' '' \<or> c = CHR 0x0A \<or> c = CHR 0x09 \<or> c = CHR 0x0D)"

definition is_word_char :: "char \<Rightarrow> bool" where
  "is_word_char c = (c \<in> set ''abcdefghijklmnopqrstuvwxyzABCDEFGHIJKLMNOPQRSTUVWXYZ0123456789_'')"

definition word_token :: "string \<Rightarrow> token" where
  "word_token w =
     (if w = ''SELECT'' then Keyword SELECT
      else if w = ''FROM'' then Keyword FROM
      else if w = ''JOIN'' then Keyword JOIN
      else if w = ''ON'' then Keyword ON
      else if w = ''WHERE'' then Keyword WHERE
      else if w = ''AND'' then Keyword AND
      else if w = ''ORDER'' then Keyword ORDER
      else if w = ''BY'' then Keyword BY
      else Word w)"

datatype lex_mode =
  Start
| In_Word string
| In_Quoted string
| Quote_In_Quoted string
| In_Literal string
| Quote_In_Literal string
| After_Bang
| After_Percent

text \<open>
  The lexer is a transducer: reading one character in a mode gives the tokens completed by
  it and the next mode; the end of the text completes the token being read.
\<close>

definition start_step :: "char \<Rightarrow> (token list \<times> lex_mode) option" where
  "start_step c =
     (if is_space c then Some ([], Start)
      else if is_word_char c then Some ([], In_Word [c])
      else if c = dq then Some ([], In_Quoted [])
      else if c = sq then Some ([], In_Literal [])
      else if c = CHR '','' then Some ([Comma], Start)
      else if c = CHR ''.'' then Some ([Dot], Start)
      else if c = CHR ''='' then Some ([Eq], Start)
      else if c = CHR ''!'' then Some ([], After_Bang)
      else if c = CHR ''%'' then Some ([], After_Percent)
      else None)"

definition after_token :: "token \<Rightarrow> char \<Rightarrow> (token list \<times> lex_mode) option" where
  "after_token t c = map_option (\<lambda>(out, m). (t # out, m)) (start_step c)"

fun tokenize_step :: "lex_mode \<Rightarrow> char \<Rightarrow> (token list \<times> lex_mode) option" where
  "tokenize_step Start c = start_step c"
| "tokenize_step (In_Word w) c =
     (if is_word_char c then Some ([], In_Word (w @ [c])) else after_token (word_token w) c)"
| "tokenize_step (In_Quoted q) c =
     (if c = dq then Some ([], Quote_In_Quoted q) else Some ([], In_Quoted (q @ [c])))"
| "tokenize_step (Quote_In_Quoted q) c =
     (if c = dq then Some ([], In_Quoted (q @ [dq])) else after_token (Quoted q) c)"
| "tokenize_step (In_Literal l) c =
     (if c = sq then Some ([], Quote_In_Literal l) else Some ([], In_Literal (l @ [c])))"
| "tokenize_step (Quote_In_Literal l) c =
     (if c = sq then Some ([], In_Literal (l @ [sq])) else after_token (Constant (SqlStr l)) c)"
| "tokenize_step After_Bang c = (if c = CHR ''='' then Some ([Neq], Start) else None)"
| "tokenize_step After_Percent c = (if c = CHR ''s'' then Some ([Placeholder], Start) else None)"

fun tokenize_finish :: "lex_mode \<Rightarrow> token list option" where
  "tokenize_finish Start = Some []"
| "tokenize_finish (In_Word w) = Some [word_token w]"
| "tokenize_finish (Quote_In_Quoted q) = Some [Quoted q]"
| "tokenize_finish (Quote_In_Literal l) = Some [Constant (SqlStr l)]"
| "tokenize_finish (In_Quoted q) = None"
| "tokenize_finish (In_Literal l) = None"
| "tokenize_finish After_Bang = None"
| "tokenize_finish After_Percent = None"

fun tokenize :: "lex_mode \<Rightarrow> string \<Rightarrow> token list option" where
  "tokenize m [] = tokenize_finish m"
| "tokenize m (c # cs) =
     (case tokenize_step m c of
        None \<Rightarrow> None
      | Some (out, m') \<Rightarrow> map_option ((@) out) (tokenize m' cs))"

subsection \<open>Parser\<close>

text \<open>
  The connector binds parameters on the client: the \<open>i\<close>-th \<^verbatim>\<open>%s\<close> of the
  statement stands for the \<open>i\<close>-th parameter.
\<close>

fun bind_parameters :: "token list \<Rightarrow> sql_value list \<Rightarrow> token list option" where
  "bind_parameters [] vs = (if vs = [] then Some [] else None)"
| "bind_parameters (t # ts) vs =
     (if t = Placeholder then
        (case vs of [] \<Rightarrow> None | v # vs' \<Rightarrow> map_option ((#) (Constant v)) (bind_parameters ts vs'))
      else map_option ((#) t) (bind_parameters ts vs))"

text \<open>
  A statement is a sequence of clauses, each opened by its keyword (\<^verbatim>\<open>AND\<close> and
  \<^verbatim>\<open>BY\<close> open none).
\<close>

fun opens_clause :: "token \<Rightarrow> keyword option" where
  "opens_clause (Keyword k) = (if k = AND \<or> k = BY then None else Some k)"
| "opens_clause t = None"

fun split_clauses :: "token list \<Rightarrow> token list \<times> (keyword \<times> token list) list" where
  "split_clauses [] = ([], [])"
| "split_clauses (t # ts) =
     (case split_clauses ts of
        (body, cls) \<Rightarrow>
          (case opens_clause t of
             Some k \<Rightarrow> ([], (k, body) # cls)
           | None \<Rightarrow> (t # body, cls)))"

fun split_on :: "token \<Rightarrow> token list \<Rightarrow> token list list" where
  "split_on sep [] = [[]]"
| "split_on sep (t # ts) =
     (if t = sep then [] # split_on sep ts
      else (case split_on sep ts of
              [] \<Rightarrow> [[t]]
            | g # gs \<Rightarrow> (t # g) # gs))"

type_synonym column_ref = "string option \<times> string"

datatype operand = Column column_ref | Val sql_value

datatype condition = Equal operand operand | Not_Equal operand operand

record table_ref =
  ref_database :: "string option"
  ref_schema :: string
  ref_view :: string
  ref_alias :: string

record select_statement =
  sel_columns :: "column_ref list"
  sel_from :: table_ref
  sel_joins :: "(table_ref \<times> condition list) list"
  sel_where :: "condition list"
  sel_order :: "column_ref list"

definition parse_column :: "token list \<Rightarrow> column_ref option" where
  "parse_column ts =
     (case ts of
        [Word c] \<Rightarrow> Some (None, c)
      | [Word q, Dot, Word c] \<Rightarrow> Some (Some q, c)
      | _ \<Rightarrow> None)"

definition parse_operand :: "token list \<Rightarrow> operand option" where
  "parse_operand ts =
     (case ts of
        [Constant v] \<Rightarrow> Some (Val v)
      | _ \<Rightarrow> map_option Column (parse_column ts))"

definition is_comparison :: "token \<Rightarrow> bool" where
  "is_comparison t = (t = Eq \<or> t = Neq)"

definition parse_condition :: "token list \<Rightarrow> condition option" where
  "parse_condition ts =
     (case parse_operand (takeWhile (\<lambda>t. \<not> is_comparison t) ts) of
        None \<Rightarrow> None
      | Some a \<Rightarrow>
          (case dropWhile (\<lambda>t. \<not> is_comparison t) ts of
             [] \<Rightarrow> None
           | cmp # rhs \<Rightarrow>
               (case parse_operand rhs of
                  None \<Rightarrow> None
                | Some b \<Rightarrow> Some (if cmp = Eq then Equal a b else Not_Equal a b))))"

definition parse_conditions :: "token list \<Rightarrow> condition list option" where
  "parse_conditions ts = those (map parse_condition (split_on (Keyword AND) ts))"

definition parse_columns :: "token list \<Rightarrow> column_ref list option" where
  "parse_columns ts = those (map parse_column (split_on Comma ts))"

definition parse_table_ref :: "token list \<Rightarrow> table_ref option" where
  "parse_table_ref ts =
     (case ts of
        [Word s, Dot, Word v] \<Rightarrow>
          Some \<lparr>ref_database = None, ref_schema = s, ref_view = v, ref_alias = v\<rparr>
      | [Word s, Dot, Word v, Word a] \<Rightarrow>
          Some \<lparr>ref_database = None, ref_schema = s, ref_view = v, ref_alias = a\<rparr>
      | [Quoted d, Dot, Word s, Dot, Word v] \<Rightarrow>
          Some \<lparr>ref_database = Some d, ref_schema = s, ref_view = v, ref_alias = v\<rparr>
      | [Quoted d, Dot, Word s, Dot, Word v, Word a] \<Rightarrow>
          Some \<lparr>ref_database = Some d, ref_schema = s, ref_view = v, ref_alias = a\<rparr>
      | _ \<Rightarrow> None)"

fun parse_joins ::
  "(keyword \<times> token list) list \<Rightarrow>
     ((table_ref \<times> condition list) list \<times> (keyword \<times> token list) list) option" where
  "parse_joins ((k, j) # (k', c) # rest) =
     (if k = JOIN then
        (if k' = ON then
           (case (parse_table_ref j, parse_conditions c, parse_joins rest) of
              (Some tr, Some cs, Some (js, rest')) \<Rightarrow> Some ((tr, cs) # js, rest')
            | _ \<Rightarrow> None)
         else None)
      else Some ([], (k, j) # (k', c) # rest))"
| "parse_joins [(k, j)] = (if k = JOIN then None else Some ([], [(k, j)]))"
| "parse_joins [] = Some ([], [])"

definition parse_where ::
  "(keyword \<times> token list) list \<Rightarrow> (condition list \<times> (keyword \<times> token list) list) option" where
  "parse_where cls =
     (case cls of
        (k, w) # rest \<Rightarrow>
          (if k = WHERE then map_option (\<lambda>cs. (cs, rest)) (parse_conditions w)
           else Some ([], cls))
      | [] \<Rightarrow> Some ([], []))"

definition parse_order :: "(keyword \<times> token list) list \<Rightarrow> column_ref list option" where
  "parse_order cls =
     (case cls of
        [] \<Rightarrow> Some []
      | [(k, Keyword b # cols)] \<Rightarrow> (if k = ORDER \<and> b = BY then parse_columns cols else None)
      | _ \<Rightarrow> None)"

definition parse_select :: "token list \<Rightarrow> select_statement option" where
  "parse_select ts =
     (case split_clauses ts of
        ([], (k, cols) # (k', src) # rest) \<Rightarrow>
          (if k = SELECT \<and> k' = FROM then
             (case (parse_columns cols, parse_table_ref src, parse_joins rest) of
                (Some cs, Some tr, Some (js, rest')) \<Rightarrow>
                  (case parse_where rest' of
                     Some (ws, rest'') \<Rightarrow>
                       (case parse_order rest'' of
                          Some os \<Rightarrow>
                            Some \<lparr>sel_columns = cs, sel_from = tr, sel_joins = js,
                                  sel_where = ws, sel_order = os\<rparr>
                        | None \<Rightarrow> None)
                   | None \<Rightarrow> None)
              | _ \<Rightarrow> None)
           else None)
      | _ \<Rightarrow> None)"

definition parse_statement :: "string \<Rightarrow> sql_value list \<Rightarrow> select_statement option" where
  "parse_statement stmt params =
     (case tokenize Start stmt of
        None \<Rightarrow> None
      | Some ts \<Rightarrow>
          (case bind_parameters ts params of
             None \<Rightarrow> None
           | Some ts' \<Rightarrow> parse_select ts'))"

subsection \<open>Evaluation\<close>

type_synonym env = "(string \<times> view_row) list"

definition lookup_column :: "env \<Rightarrow> column_ref \<Rightarrow> py_error + sql_value" where
  "lookup_column env ref =
     (case ref of
        (q, c) \<Rightarrow>
          (case List.map_filter
                  (\<lambda>(a, r). if q = None \<or> q = Some a then map_of r c else None) env of
             [] \<Rightarrow> Inl (QueryFailure ''invalid identifier'')
           | [v] \<Rightarrow> Inr v
           | _ \<Rightarrow> Inl (QueryFailure ''ambiguous column name'')))"

fun eval_operand :: "env \<Rightarrow> operand \<Rightarrow> py_error + sql_value" where
  "eval_operand env (Column ref) = lookup_column env ref"
| "eval_operand env (Val v) = Inr v"

text \<open>SQL comparison is three-valued: comparing with \<^verbatim>\<open>NULL\<close> is unknown.\<close>

definition sql_equal :: "sql_value \<Rightarrow> sql_value \<Rightarrow> bool option" where
  "sql_equal a b = (if a = SqlNull \<or> b = SqlNull then None else Some (a = b))"

definition compare_operands ::
  "env \<Rightarrow> operand \<Rightarrow> operand \<Rightarrow> py_error + bool option" where
  "compare_operands env a b =
     (case eval_operand env a of
        Inl e \<Rightarrow> Inl e
      | Inr x \<Rightarrow> (case eval_operand env b of Inl e \<Rightarrow> Inl e | Inr y \<Rightarrow> Inr (sql_equal x y)))"

text \<open>A row passes a condition when the condition is true of it (not false, not unknown).\<close>

fun holds :: "env \<Rightarrow> condition \<Rightarrow> py_error + bool" where
  "holds env (Equal a b) =
     (case compare_operands env a b of Inl e \<Rightarrow> Inl e | Inr r \<Rightarrow> Inr (r = Some True))"
| "holds env (Not_Equal a b) =
     (case compare_operands env a b of Inl e \<Rightarrow> Inl e | Inr r \<Rightarrow> Inr (r = Some False))"

fun holds_all :: "condition list \<Rightarrow> env \<Rightarrow> py_error + bool" where
  "holds_all [] env = Inr True"
| "holds_all (c # cs) env =
     (case holds env c of
        Inl e \<Rightarrow> Inl e
      | Inr b \<Rightarrow> (case holds_all cs env of Inl e \<Rightarrow> Inl e | Inr bs \<Rightarrow> Inr (b \<and> bs)))"

fun keep_where :: "('a \<Rightarrow> py_error + bool) \<Rightarrow> 'a list \<Rightarrow> py_error + 'a list" where
  "keep_where p [] = Inr []"
| "keep_where p (x # xs) =
     (case p x of
        Inl e \<Rightarrow> Inl e
      | Inr b \<Rightarrow>
          (case keep_where p xs of
             Inl e \<Rightarrow> Inl e
           | Inr ys \<Rightarrow> Inr (if b then x # ys else ys)))"

definition resolve_view :: "warehouse \<Rightarrow> table_ref \<Rightarrow> py_error + env list" where
  "resolve_view w tr =
     (case (case ref_database tr of None \<Rightarrow> Some (current_database w) | Some d \<Rightarrow> databases w d) of
        None \<Rightarrow> Inl (QueryFailure ''database does not exist'')
      | Some cat \<Rightarrow>
          (if ref_schema tr \<noteq> ''information_schema'' then Inl (QueryFailure ''schema does not exist'')
           else (case view_rows cat (ref_view tr) of
                   None \<Rightarrow> Inl (QueryFailure ''object does not exist'')
                 | Some rows \<Rightarrow> Inr (map (\<lambda>r. [(ref_alias tr, r)]) rows))))"

fun eval_joins ::
  "warehouse \<Rightarrow> env list \<Rightarrow> (table_ref \<times> condition list) list \<Rightarrow> py_error + env list" where
  "eval_joins w envs [] = Inr envs"
| "eval_joins w envs ((tr, on) # js) =
     (case resolve_view w tr of
        Inl e \<Rightarrow> Inl e
      | Inr right \<Rightarrow>
          (case keep_where (holds_all on) (concat (map (\<lambda>l. map (\<lambda>r. l @ r) right) envs)) of
             Inl e \<Rightarrow> Inl e
           | Inr joined \<Rightarrow> eval_joins w joined js))"

text \<open>
  \<^verbatim>\<open>ORDER BY\<close> sorts ascending: integers by value, strings by the code of their
  characters, \<^verbatim>\<open>NULL\<close> last.
\<close>

fun sort_rank :: "sql_value \<Rightarrow> nat \<times> int \<times> string" where
  "sort_rank (SqlInt i) = (0, i, [])"
| "sort_rank (SqlStr s) = (0, 0, s)"
| "sort_rank SqlNull = (1, 0, [])"

definition project :: "column_ref list \<Rightarrow> env \<Rightarrow> py_error + row" where
  "project cols env = comprehension (lookup_column env) cols"

definition keyed :: "column_ref list \<Rightarrow> env \<Rightarrow> py_error + (nat \<times> int \<times> string) list \<times> env" where
  "keyed cols env =
     (case project cols env of Inl e \<Rightarrow> Inl e | Inr vs \<Rightarrow> Inr (map sort_rank vs, env))"

definition order_by :: "column_ref list \<Rightarrow> env list \<Rightarrow> py_error + env list" where
  "order_by cols envs =
     (if cols = [] then Inr envs
      else (case comprehension (keyed cols) envs of
              Inl e \<Rightarrow> Inl e
            | Inr ks \<Rightarrow> Inr (map snd (sort_key fst ks))))"

definition run_select :: "warehouse \<Rightarrow> select_statement \<Rightarrow> py_error + cursor" where
  "run_select w sel =
     (case resolve_view w (sel_from sel) of
        Inl e \<Rightarrow> Inl e
      | Inr envs \<Rightarrow>
          (case eval_joins w envs (sel_joins sel) of
             Inl e \<Rightarrow> Inl e
           | Inr joined \<Rightarrow>
               (case keep_where (holds_all (sel_where sel)) joined of
                  Inl e \<Rightarrow> Inl e
                | Inr kept \<Rightarrow>
                    (case order_by (sel_order sel) kept of
                       Inl e \<Rightarrow> Inl e
                     | Inr sorted_envs \<Rightarrow>
                         (case comprehension (project (sel_columns sel)) sorted_envs of
                            Inl e \<Rightarrow> Inl e
                          | Inr rows \<Rightarrow>
                              Inr \<lparr>description = Some (map (\<lambda>(q, c). (c, 0)) (sel_columns sel)),
                                   pending = rows,
                                   rowcount = Some (int (length rows))\<rparr>)))))"

definition warehouse_conn :: "warehouse \<Rightarrow> connection" where
  "warehouse_conn w stmt params =
     (case parse_statement stmt params of
        None \<Rightarrow> Inl (QueryFailure ''syntax error'')
      | Some sel \<Rightarrow> run_select w sel)"

text \<open>
  The database a database argument of the adapter names: none when the argument is
  \<^verbatim>\<open>None\<close> or empty (both are falsy).
\<close>

definition named_database :: "string option \<Rightarrow> string option" where
  "named_database database =
     (case database of None \<Rightarrow> None | Some d \<Rightarrow> if d = [] then None else Some d)"

text \<open>
  The catalog a database argument of the adapter addresses: the current database when the
  argument is \<^verbatim>\<open>None\<close> or empty, the named database otherwise.
\<close>

definition catalog_of :: "warehouse \<Rightarrow> string option \<Rightarrow> catalog option" where
  "catalog_of w database =
     (case database of
        None \<Rightarrow> Some (current_database w)
      | Some d \<Rightarrow> if d = [] then Some (current_database w) else databases w d)"

text \<open>A warehouse for examples: one catalog, current and also known as \<^verbatim>\<open>DB\<close>.\<close>

definition demo_catalog :: catalog where
  "demo_catalog =
     \<lparr>tables_view =
        [\<lparr>t_schema = ''SALES'', t_name = ''ORDERS'', t_type = ''BASE TABLE''\<rparr>,
         \<lparr>t_schema = ''INFORMATION_SCHEMA'', t_name = ''TABLES'', t_type = ''BASE TABLE''\<rparr>,
         \<lparr>t_schema = ''SALES'', t_name = ''CUSTOMERS'', t_type = ''BASE TABLE''\<rparr>,
         \<lparr>t_schema = ''PUBLIC'', t_name = ''V'', t_type = ''VIEW''\<rparr>,
         \<lparr>t_schema = ''PUBLIC'', t_name = ''T'', t_type = ''BASE TABLE''\<rparr>],
      columns_view =
        [\<lparr>c_schema = ''PUBLIC'', c_table = ''T'', c_name = ''B'', c_data_type = ''TEXT'', c_ordinal = 2\<rparr>,
         \<lparr>c_schema = ''SALES'', c_table = ''ORDERS'', c_name = ''ID'', c_data_type = ''NUMBER'', c_ordinal = 1\<rparr>,
         \<lparr>c_schema = ''PUBLIC'', c_table = ''T'', c_name = ''A'', c_data_type = ''NUMBER'', c_ordinal = 1\<rparr>],
      table_constraints_view =
        [\<lparr>tc_constraint = ''PK_T'', tc_schema = ''PUBLIC'', tc_table = ''T'', tc_type = ''PRIMARY KEY''\<rparr>,
         \<lparr>tc_constraint = ''UQ_T'', tc_schema = ''PUBLIC'', tc_table = ''T'', tc_type = ''UNIQUE''\<rparr>],
      key_column_usage_view =
        [\<lparr>kcu_constraint = ''UQ_T'', kcu_schema = ''PUBLIC'', kcu_table = ''T'', kcu_column = ''B''\<rparr>,
         \<lparr>kcu_constraint = ''PK_T'', kcu_schema = ''PUBLIC'', kcu_table = ''T'', kcu_column = ''A''\<rparr>]\<rparr>"

definition demo_warehouse :: warehouse where
  "demo_warehouse = \<lparr>current_database = demo_catalog, databases = [''DB'' \<mapsto> demo_catalog]\<rparr>"

section \<open>Properties\<close>

subsection \<open>Reading a quoted identifier back\<close>

lemma collapse_doubled_escape:
  "collapse_doubled (str_replace_char dq [dq, dq] ident) = Some ident"
proof (induction ident)
  case Nil
  show ?case by (simp add: str_replace_char_def)
next
  case (Cons c ident)
  show ?case
  proof (cases "c = dq")
    case True
    with Cons show ?thesis by (simp add: str_replace_char_def)
  next
    case False
    note c = this
    show ?thesis
    proof (cases ident)
      case Nil
      with c show ?thesis by (simp add: str_replace_char_def)
    next
      case (Cons d rest)
      have "str_replace_char dq [dq, dq] (c # ident) = c # str_replace_char dq [dq, dq] ident"
        using c by (simp add: str_replace_char_def)
      moreover obtain e t where et: "str_replace_char dq [dq, dq] ident = e # t"
        using Cons by (cases "d = dq") (simp_all add: str_replace_char_def)
      ultimately show ?thesis
        using c Cons.IH by simp
    qed
  qed
qed

lemma strip_outer_quotes_wrap: "strip_outer_quotes ([dq] @ body @ [dq]) = Some body"
  by (simp add: strip_outer_quotes_def)

lemma str_replace_char_absent: "old \<notin> set s \<Longrightarrow> str_replace_char old new s = s"
  by (induction s) (auto simp add: str_replace_char_def)

lemma quote_identifier_plain: "dq \<notin> set s \<Longrightarrow> quote_identifier s = [dq] @ s @ [dq]"
  by (simp add: quote_identifier_def str_replace_char_absent)

subsection \<open>The executor's result\<close>

lemma run_execute_query_max_rows:
  assumes "conn query [] = Inr cur" and "0 \<le> k"
  shows "run_execute_query conn query (Some k) =
           Inr ((column_names cur,
                 (if k < int (length (pending cur)) then take (nat k) (pending cur) else pending cur),
                 k < int (length (pending cur))),
                cur\<lparr>pending := drop (nat (k + 1)) (pending cur)\<rparr>)"
proof (cases "k < int (length (pending cur))")
  case True
  have "take (nat k) (take (nat (k + 1)) (pending cur)) = take (nat k) (pending cur)"
    using assms(2) by (simp add: min_def)
  then show ?thesis
    using assms True
    by (simp add: run_execute_query_def fetchmany_def slice_to_def Let_def column_names_def
        split: option.splits)
next
  case False
  then show ?thesis
    using assms
    by (simp add: run_execute_query_def fetchmany_def slice_to_def Let_def column_names_def
        split: option.splits)
qed

lemma run_execute_query_all_rows:
  assumes "conn query [] = Inr cur"
  shows "run_execute_query conn query None =
           Inr ((column_names cur, pending cur, False), cur\<lparr>pending := []\<rparr>)"
  using assms
  by (simp add: run_execute_query_def fetchall_def Let_def column_names_def split: option.splits)

subsection \<open>Lexing and parsing the adapter's statements\<close>

lemma map_option_append_Nil [simp]: "map_option ((@) []) r = r"
  by (cases r) simp_all

lemma str_replace_char_Nil: "str_replace_char old new [] = []"
  by (simp add: str_replace_char_def)

lemma str_replace_char_Cons:
  "str_replace_char old new (c # s) = (if c = old then new else [c]) @ str_replace_char old new s"
  by (simp add: str_replace_char_def)

lemma tokenize_quoted_body:
  "tokenize (In_Quoted q) (str_replace_char dq [dq, dq] d @ dq # rest)
     = tokenize (Quote_In_Quoted (q @ d)) rest"
proof (induction d arbitrary: q)
  case Nil
  show ?case by (simp add: str_replace_char_Nil)
next
  case (Cons c d)
  show ?case
  proof (cases "c = dq")
    case True
    then show ?thesis
      using Cons.IH [of "q @ [dq]"] by (simp add: str_replace_char_Cons)
  next
    case False
    then show ?thesis
      using Cons.IH [of "q @ [c]"] by (simp add: str_replace_char_Cons)
  qed
qed

lemma tokenize_quote_identifier:
  "tokenize Start (quote_identifier d @ rest) = tokenize (Quote_In_Quoted d) rest"
  using tokenize_quoted_body [of "[]" d rest]
  by (simp add: quote_identifier_def start_step_def is_space_def is_word_char_def dq_def)

lemmas tokenize_defs =
  start_step_def after_token_def is_space_def is_word_char_def dq_def sq_def word_token_def

lemmas parse_defs =
  parse_statement_def parse_select_def parse_columns_def parse_column_def parse_table_ref_def
  parse_where_def parse_order_def parse_conditions_def parse_condition_def parse_operand_def
  is_comparison_def

lemma tokenize_tables_sql:
  "tokenize Start (tables_sql database) =
     Some ([Keyword SELECT, Word ''table_schema'', Comma, Word ''table_name'', Keyword FROM] @
           (case named_database database of None \<Rightarrow> [] | Some d \<Rightarrow> [Quoted d, Dot]) @
           [Word ''information_schema'', Dot, Word ''tables'',
            Keyword WHERE, Word ''table_type'', Eq, Constant (SqlStr ''BASE TABLE''),
            Keyword AND, Word ''table_schema'', Neq, Constant (SqlStr ''INFORMATION_SCHEMA''),
            Keyword ORDER, Keyword BY, Word ''table_schema'', Comma, Word ''table_name''])"
proof (cases "named_database database")
  case None
  then have "db_prefix database = []"
    by (cases database) (simp_all add: named_database_def split: if_splits)
  with None show ?thesis
    by (simp add: tables_sql_def tokenize_defs)
next
  case (Some d)
  then have "db_prefix database = quote_identifier d @ ''.''"
    by (cases database) (simp_all add: named_database_def split: if_splits)
  with Some show ?thesis
    by (simp add: tables_sql_def tokenize_quote_identifier tokenize_defs)
qed

lemma parse_tables_sql:
  "parse_statement (tables_sql database) [] =
     Some \<lparr>sel_columns = [(None, ''table_schema''), (None, ''table_name'')],
           sel_from = \<lparr>ref_database = named_database database, ref_schema = ''information_schema'',
                       ref_view = ''tables'', ref_alias = ''tables''\<rparr>,
           sel_joins = [],
           sel_where = [Equal (Column (None, ''table_type'')) (Val (SqlStr ''BASE TABLE'')),
                        Not_Equal (Column (None, ''table_schema'')) (Val (SqlStr ''INFORMATION_SCHEMA''))],
           sel_order = [(None, ''table_schema''), (None, ''table_name'')]\<rparr>"
  by (cases "named_database database") (simp_all add: tokenize_tables_sql parse_defs)

lemma db_prefix_named:
  "db_prefix database =
     (case named_database database of None \<Rightarrow> [] | Some d \<Rightarrow> quote_identifier d @ ''.'')"
  by (cases database) (simp_all add: named_database_def)

lemma tokenize_columns_sql:
  "tokenize Start (columns_sql database) =
     Some ([Keyword SELECT, Word ''column_name'', Comma, Word ''data_type'', Comma,
            Word ''ordinal_position'', Keyword FROM] @
           (case named_database database of None \<Rightarrow> [] | Some d \<Rightarrow> [Quoted d, Dot]) @
           [Word ''information_schema'', Dot, Word ''columns'', Keyword WHERE,
            Word ''table_schema'', Eq, Placeholder, Keyword AND, Word ''table_name'',
            Eq, Placeholder, Keyword ORDER, Keyword BY, Word ''ordinal_position''])"
  by (cases "named_database database")
    (simp_all add: columns_sql_def db_prefix_named tokenize_quote_identifier tokenize_defs)

lemma parse_columns_sql:
  "parse_statement (columns_sql database) [s, t] =
     Some \<lparr>sel_columns = [(None, ''column_name''), (None, ''data_type''), (None, ''ordinal_position'')],
           sel_from = \<lparr>ref_database = named_database database, ref_schema = ''information_schema'',
                       ref_view = ''columns'', ref_alias = ''columns''\<rparr>,
           sel_joins = [],
           sel_where = [Equal (Column (None, ''table_schema'')) (Val s),
                        Equal (Column (None, ''table_name'')) (Val t)],
           sel_order = [(None, ''ordinal_position'')]\<rparr>"
  by (cases "named_database database") (simp_all add: tokenize_columns_sql parse_defs)

lemma tokenize_pk_sql:
  "tokenize Start (pk_sql database) =
     Some ([Keyword SELECT, Word ''kcu'', Dot, Word ''column_name'', Keyword FROM] @
           (case named_database database of None \<Rightarrow> [] | Some d \<Rightarrow> [Quoted d, Dot]) @
           [Word ''information_schema'', Dot, Word ''table_constraints'', Word ''tc'', Keyword JOIN] @
           (case named_database database of None \<Rightarrow> [] | Some d \<Rightarrow> [Quoted d, Dot]) @
           [Word ''information_schema'', Dot, Word ''key_column_usage'', Word ''kcu'',
            Keyword ON, Word ''tc'', Dot, Word ''constraint_name'', Eq,
            Word ''kcu'', Dot, Word ''constraint_name'', Keyword AND, Word ''tc'',
            Dot, Word ''table_schema'', Eq, Word ''kcu'', Dot, Word ''table_schema'',
            Keyword WHERE, Word ''tc'', Dot, Word ''constraint_type'', Eq,
            Constant (SqlStr ''PRIMARY KEY''), Keyword AND, Word ''tc'', Dot,
            Word ''table_schema'', Eq, Placeholder, Keyword AND, Word ''tc'', Dot,
            Word ''table_name'', Eq, Placeholder])"
  by (cases "named_database database")
    (simp_all add: pk_sql_def db_prefix_named tokenize_quote_identifier tokenize_defs)

lemma parse_pk_sql:
  "parse_statement (pk_sql database) [s, t] =
     Some \<lparr>sel_columns = [(Some ''kcu'', ''column_name'')],
           sel_from = \<lparr>ref_database = named_database database, ref_schema = ''information_schema'',
                       ref_view = ''table_constraints'', ref_alias = ''tc''\<rparr>,
           sel_joins =
             [(\<lparr>ref_database = named_database database, ref_schema = ''information_schema'',
                 ref_view = ''key_column_usage'', ref_alias = ''kcu''\<rparr>,
               [Equal (Column (Some ''tc'', ''constraint_name'')) (Column (Some ''kcu'', ''constraint_name'')),
                Equal (Column (Some ''tc'', ''table_schema'')) (Column (Some ''kcu'', ''table_schema''))])],
           sel_where = [Equal (Column (Some ''tc'', ''constraint_type'')) (Val (SqlStr ''PRIMARY KEY'')),
                        Equal (Column (Some ''tc'', ''table_schema'')) (Val s),
                        Equal (Column (Some ''tc'', ''table_name'')) (Val t)],
           sel_order = []\<rparr>"
  by (cases "named_database database") (simp_all add: tokenize_pk_sql parse_defs)

subsection \<open>Comprehensions, filters and sorting that cannot fail\<close>

lemma comprehension_map_total:
  "(\<And>x. x \<in> set xs \<Longrightarrow> h (f x) = Inr (g x)) \<Longrightarrow> comprehension h (map f xs) = Inr (map g xs)"
  by (induction xs) simp_all

lemma comprehension_total:
  "(\<And>x. x \<in> set xs \<Longrightarrow> h x = Inr (g x)) \<Longrightarrow> comprehension h xs = Inr (map g xs)"
  using comprehension_map_total [of xs h "\<lambda>x. x" g] by simp

lemma keep_where_map_total:
  "(\<And>x. x \<in> set xs \<Longrightarrow> p (f x) = Inr (P x)) \<Longrightarrow>
     keep_where p (map f xs) = Inr (map f (filter P xs))"
  by (induction xs) simp_all

lemma insort_key_map:
  "insort_key k (f x) (map f ys) = map f (insort_key (\<lambda>y. k (f y)) x ys)"
  by (induction ys) simp_all

lemma sort_key_map:
  "sort_key k (map f xs) = map f (sort_key (\<lambda>x. k (f x)) xs)"
  by (induction xs) (simp_all add: insort_key_map)

lemma order_by_map_total:
  assumes "cols \<noteq> []" and "\<And>x. x \<in> set xs \<Longrightarrow> project cols (f x) = Inr (vals x)"
  shows "order_by cols (map f xs) = Inr (map f (sort_key (\<lambda>x. map sort_rank (vals x)) xs))"
proof -
  have "comprehension (keyed cols) (map f xs) = Inr (map (\<lambda>x. (map sort_rank (vals x), f x)) xs)"
    by (rule comprehension_map_total) (simp add: keyed_def assms(2))
  moreover have "map snd (sort_key fst (map (\<lambda>x. (map sort_rank (vals x), f x)) xs))
      = map f (sort_key (\<lambda>x. map sort_rank (vals x)) xs)"
    by (simp add: sort_key_map comp_def)
  ultimately show ?thesis
    using assms(1) by (simp add: order_by_def)
qed

subsection \<open>The answer to the tables statement\<close>

lemma catalog_of_named:
  "catalog_of w database =
     (case named_database database of None \<Rightarrow> Some (current_database w) | Some d \<Rightarrow> databases w d)"
  by (cases database) (simp_all add: catalog_of_def named_database_def)

lemma resolve_tables:
  assumes "catalog_of w database = Some cat"
  shows "resolve_view w \<lparr>ref_database = named_database database, ref_schema = ''information_schema'',
                          ref_view = ''tables'', ref_alias = ''tables''\<rparr>
           = Inr (map (\<lambda>t. [(''tables'', tables_row t)]) (tables_view cat))"
  using assms
  by (simp add: resolve_view_def catalog_of_named view_rows_def comp_def
      split: option.splits)

lemma holds_all_tables:
  "holds_all [Equal (Column (None, ''table_type'')) (Val (SqlStr ''BASE TABLE'')),
              Not_Equal (Column (None, ''table_schema'')) (Val (SqlStr ''INFORMATION_SCHEMA''))]
     [(''tables'', tables_row t)] = Inr (is_listed_table t)"
  by (simp add: compare_operands_def lookup_column_def List.map_filter_simps tables_row_def
      sql_equal_def is_listed_table_def)

lemma project_tables:
  "project [(None, ''table_schema''), (None, ''table_name'')] [(''tables'', tables_row t)]
     = Inr [SqlStr (t_schema t), SqlStr (t_name t)]"
  by (simp add: project_def lookup_column_def List.map_filter_simps tables_row_def)

lemma warehouse_tables_answer:
  assumes "catalog_of w database = Some cat"
  shows "\<exists>d n. warehouse_conn w (tables_sql database) [] =
           Inr \<lparr>description = d,
                pending = map (\<lambda>t. [SqlStr (t_schema t), SqlStr (t_name t)])
                            (sort_key (\<lambda>t. map sort_rank [SqlStr (t_schema t), SqlStr (t_name t)])
                               (filter is_listed_table (tables_view cat))),
                rowcount = n\<rparr>"
proof -
  let ?env = "\<lambda>t::table_entry. [(''tables'', tables_row t)]"
  let ?vals = "\<lambda>t::table_entry. [SqlStr (t_schema t), SqlStr (t_name t)]"
  let ?conds = "[Equal (Column (None, ''table_type'')) (Val (SqlStr ''BASE TABLE'')),
                 Not_Equal (Column (None, ''table_schema'')) (Val (SqlStr ''INFORMATION_SCHEMA''))]"
  let ?cols = "[(None, ''table_schema''), (None, ''table_name'')] :: column_ref list"
  let ?kept = "filter is_listed_table (tables_view cat)"
  define key where "key = (\<lambda>t::table_entry. map sort_rank (?vals t))"
  have kept: "keep_where (holds_all ?conds) (map ?env (tables_view cat)) = Inr (map ?env ?kept)"
    by (rule keep_where_map_total) (rule holds_all_tables)
  have ordered: "order_by ?cols (map ?env ?kept) = Inr (map ?env (sort_key key ?kept))"
    unfolding key_def by (rule order_by_map_total) (simp_all add: project_tables)
  have rows: "comprehension (project ?cols) (map ?env (sort_key key ?kept))
                = Inr (map ?vals (sort_key key ?kept))"
    by (rule comprehension_map_total) (rule project_tables)
  have "\<exists>d n. warehouse_conn w (tables_sql database) [] =
           Inr \<lparr>description = d, pending = map ?vals (sort_key key ?kept), rowcount = n\<rparr>"
    by (simp add: warehouse_conn_def parse_tables_sql run_select_def resolve_tables [OF assms]
        kept ordered rows)
  then show ?thesis
    unfolding key_def .
qed

subsection \<open>Sort keys\<close>

lemma insort_key_cong_le:
  assumes "\<And>y. y \<in> set ys \<Longrightarrow> (k x \<le> k y) = (k' x \<le> k' y)"
  shows "insort_key k x ys = insort_key k' x ys"
  using assms by (induction ys) simp_all

lemma sort_key_cong_le:
  assumes "\<And>x y. (k x \<le> k y) = (k' x \<le> k' y)"
  shows "sort_key k xs = sort_key k' xs"
proof (induction xs)
  case Nil
  show ?case by simp
next
  case (Cons x xs)
  have "insort_key k x (sort_key k' xs) = insort_key k' x (sort_key k' xs)"
    by (rule insort_key_cong_le) (rule assms)
  with Cons show ?case by simp
qed

lemma rank_less: "(sort_rank (SqlStr a) < sort_rank (SqlStr c)) = (a < c)"
  by simp

lemma rank_eq: "(sort_rank (SqlStr a) = sort_rank (SqlStr c)) = (a = c)"
  by simp

lemma table_key_le:
  "(map sort_rank [SqlStr a, SqlStr b] \<le> map sort_rank [SqlStr c, SqlStr d]) = ((a, b) \<le> (c, d))"
proof -
  have "(map sort_rank [SqlStr a, SqlStr b] \<le> map sort_rank [SqlStr c, SqlStr d])
      = (a < c \<or> a = c \<and> (b < d \<or> b = d))"
    by (simp only: list.map Cons_le_Cons rank_less rank_eq le_Nil Nil_le_Cons simp_thms)
  also have "\<dots> = (a < c \<or> a \<le> c \<and> b \<le> d)"
    by (metis order_le_less)
  also have "\<dots> = ((a, b) \<le> (c, d))"
    by (simp only: less_eq_prod_simp)
  finally show ?thesis .
qed

lemma row_pair_two: "row_pair 0 1 [a, b] = Inr (a, b)"
  by (simp add: row_pair_def row_get_def)

subsection \<open>The answer to the columns statement\<close>

lemma resolve_columns:
  assumes "catalog_of w database = Some cat"
  shows "resolve_view w \<lparr>ref_database = named_database database, ref_schema = ''information_schema'',
                          ref_view = ''columns'', ref_alias = ''columns''\<rparr>
           = Inr (map (\<lambda>c. [(''columns'', columns_row c)]) (columns_view cat))"
  using assms
  by (simp add: resolve_view_def catalog_of_named view_rows_def comp_def split: option.splits)

lemma holds_all_columns:
  "holds_all [Equal (Column (None, ''table_schema'')) (Val (SqlStr s)),
              Equal (Column (None, ''table_name'')) (Val (SqlStr t))]
     [(''columns'', columns_row c)] = Inr (c_schema c = s \<and> c_table c = t)"
  by (simp add: compare_operands_def lookup_column_def List.map_filter_simps columns_row_def
      sql_equal_def)

lemma project_columns:
  "project [(None, ''column_name''), (None, ''data_type''), (None, ''ordinal_position'')]
     [(''columns'', columns_row c)]
     = Inr [SqlStr (c_name c), SqlStr (c_data_type c), SqlInt (c_ordinal c)]"
  by (simp add: project_def lookup_column_def List.map_filter_simps columns_row_def)

lemma project_ordinal:
  "project [(None, ''ordinal_position'')] [(''columns'', columns_row c)] = Inr [SqlInt (c_ordinal c)]"
  by (simp add: project_def lookup_column_def List.map_filter_simps columns_row_def)

lemma ordinal_key_le:
  "(map sort_rank [SqlInt i] \<le> map sort_rank [SqlInt j]) = (i \<le> j)"
proof -
  have "(map sort_rank [SqlInt i] \<le> map sort_rank [SqlInt j])
      = ((0::nat, i, []::string) < (0, j, []) \<or> (0::nat, i, []::string) = (0, j, []))"
    by (simp only: list.map Cons_le_Cons sort_rank.simps le_Nil Nil_le_Cons simp_thms)
  also have "\<dots> = (i < j \<or> i = j)"
    by simp
  also have "\<dots> = (i \<le> j)"
    by (simp only: order_le_less)
  finally show ?thesis .
qed

lemma warehouse_columns_answer:
  assumes "catalog_of w database = Some cat"
  shows "\<exists>d n. warehouse_conn w (columns_sql database) [SqlStr s, SqlStr t] =
           Inr \<lparr>description = d,
                pending = map (\<lambda>c. [SqlStr (c_name c), SqlStr (c_data_type c), SqlInt (c_ordinal c)])
                            (sort_key c_ordinal
                               (filter (\<lambda>c. c_schema c = s \<and> c_table c = t) (columns_view cat))),
                rowcount = n\<rparr>"
proof -
  let ?env = "\<lambda>c::column_entry. [(''columns'', columns_row c)]"
  let ?vals = "\<lambda>c::column_entry. [SqlStr (c_name c), SqlStr (c_data_type c), SqlInt (c_ordinal c)]"
  let ?conds = "[Equal (Column (None, ''table_schema'')) (Val (SqlStr s)),
                 Equal (Column (None, ''table_name'')) (Val (SqlStr t))]"
  let ?cols = "[(None, ''column_name''), (None, ''data_type''), (None, ''ordinal_position'')]
                 :: column_ref list"
  let ?kept = "filter (\<lambda>c. c_schema c = s \<and> c_table c = t) (columns_view cat)"
  define key where "key = (\<lambda>c::column_entry. map sort_rank [SqlInt (c_ordinal c)])"
  have key: "sort_key key ?kept = sort_key c_ordinal ?kept"
    unfolding key_def by (rule sort_key_cong_le) (rule ordinal_key_le)
  have kept: "keep_where (holds_all ?conds) (map ?env (columns_view cat)) = Inr (map ?env ?kept)"
    by (rule keep_where_map_total) (rule holds_all_columns)
  have ordered: "order_by [(None, ''ordinal_position'')] (map ?env ?kept)
                   = Inr (map ?env (sort_key key ?kept))"
    unfolding key_def by (rule order_by_map_total) (simp_all add: project_ordinal)
  have rows: "comprehension (project ?cols) (map ?env (sort_key key ?kept))
                = Inr (map ?vals (sort_key key ?kept))"
    by (rule comprehension_map_total) (rule project_columns)
  have "\<exists>d n. warehouse_conn w (columns_sql database) [SqlStr s, SqlStr t] =
           Inr \<lparr>description = d, pending = map ?vals (sort_key key ?kept), rowcount = n\<rparr>"
    by (simp add: warehouse_conn_def parse_columns_sql run_select_def resolve_columns [OF assms]
        kept ordered rows)
  then show ?thesis
    unfolding key .
qed

subsection \<open>The answer to the key statement\<close>

lemma join_product:
  "concat (map (\<lambda>l. map (\<lambda>r. l @ r) (map g ys)) (map f xs))
     = map (\<lambda>(x, y). f x @ g y) (List.product xs ys)"
  by (induction xs) (simp_all add: comp_def)

lemma resolve_table_constraints:
  assumes "catalog_of w database = Some cat"
  shows "resolve_view w \<lparr>ref_database = named_database database, ref_schema = ''information_schema'',
                          ref_view = ''table_constraints'', ref_alias = ''tc''\<rparr>
           = Inr (map (\<lambda>k. [(''tc'', table_constraints_row k)]) (table_constraints_view cat))"
  using assms
  by (simp add: resolve_view_def catalog_of_named view_rows_def comp_def split: option.splits)

lemma resolve_key_column_usage:
  assumes "catalog_of w database = Some cat"
  shows "resolve_view w \<lparr>ref_database = named_database database, ref_schema = ''information_schema'',
                          ref_view = ''key_column_usage'', ref_alias = ''kcu''\<rparr>
           = Inr (map (\<lambda>u. [(''kcu'', key_column_usage_row u)]) (key_column_usage_view cat))"
  using assms
  by (simp add: resolve_view_def catalog_of_named view_rows_def comp_def split: option.splits)

lemma holds_all_join:
  "holds_all [Equal (Column (Some ''tc'', ''constraint_name'')) (Column (Some ''kcu'', ''constraint_name'')),
              Equal (Column (Some ''tc'', ''table_schema'')) (Column (Some ''kcu'', ''table_schema''))]
     [(''tc'', table_constraints_row k), (''kcu'', key_column_usage_row u)]
     = Inr (tc_constraint k = kcu_constraint u \<and> tc_schema k = kcu_schema u)"
  by (simp add: compare_operands_def lookup_column_def List.map_filter_simps
      table_constraints_row_def key_column_usage_row_def sql_equal_def)

lemma holds_all_primary_key:
  "holds_all [Equal (Column (Some ''tc'', ''constraint_type'')) (Val (SqlStr ''PRIMARY KEY'')),
              Equal (Column (Some ''tc'', ''table_schema'')) (Val (SqlStr s)),
              Equal (Column (Some ''tc'', ''table_name'')) (Val (SqlStr t))]
     [(''tc'', table_constraints_row k), (''kcu'', key_column_usage_row u)]
     = Inr (tc_type k = ''PRIMARY KEY'' \<and> tc_schema k = s \<and> tc_table k = t)"
  by (simp add: compare_operands_def lookup_column_def List.map_filter_simps
      table_constraints_row_def key_column_usage_row_def sql_equal_def)

lemma project_key_column:
  "project [(Some ''kcu'', ''column_name'')]
     [(''tc'', table_constraints_row k), (''kcu'', key_column_usage_row u)]
     = Inr [SqlStr (kcu_column u)]"
  by (simp add: project_def lookup_column_def List.map_filter_simps
      table_constraints_row_def key_column_usage_row_def)

lemma warehouse_pk_answer:
  assumes "catalog_of w database = Some cat"
  shows "\<exists>d n. warehouse_conn w (pk_sql database) [SqlStr s, SqlStr t] =
           Inr \<lparr>description = d,
                pending = map (\<lambda>(k, u). [SqlStr (kcu_column u)]) (key_pairs cat s t),
                rowcount = n\<rparr>"
proof -
  let ?left = "\<lambda>k::constraint_entry. [(''tc'', table_constraints_row k)]"
  let ?right = "\<lambda>u::key_usage_entry. [(''kcu'', key_column_usage_row u)]"
  let ?env = "\<lambda>(k::constraint_entry, u::key_usage_entry).
                [(''tc'', table_constraints_row k), (''kcu'', key_column_usage_row u)]"
  let ?on = "[Equal (Column (Some ''tc'', ''constraint_name'')) (Column (Some ''kcu'', ''constraint_name'')),
              Equal (Column (Some ''tc'', ''table_schema'')) (Column (Some ''kcu'', ''table_schema''))]"
  let ?conds = "[Equal (Column (Some ''tc'', ''constraint_type'')) (Val (SqlStr ''PRIMARY KEY'')),
                 Equal (Column (Some ''tc'', ''table_schema'')) (Val (SqlStr s)),
                 Equal (Column (Some ''tc'', ''table_name'')) (Val (SqlStr t))]"
  let ?all = "List.product (table_constraints_view cat) (key_column_usage_view cat)"
  let ?joined = "filter (\<lambda>(k, u). tc_constraint k = kcu_constraint u \<and> tc_schema k = kcu_schema u) ?all"
  have product: "concat (map (\<lambda>l. map (\<lambda>r. l @ r) (map ?right (key_column_usage_view cat)))
                   (map ?left (table_constraints_view cat))) = map ?env ?all"
    using join_product [of ?right "key_column_usage_view cat" ?left "table_constraints_view cat"]
    by simp
  have joined: "keep_where (holds_all ?on) (map ?env ?all) = Inr (map ?env ?joined)"
    by (rule keep_where_map_total) (auto simp only: holds_all_join split: prod.splits)
  have joins: "eval_joins w (map ?left (table_constraints_view cat))
                 [(\<lparr>ref_database = named_database database, ref_schema = ''information_schema'',
                     ref_view = ''key_column_usage'', ref_alias = ''kcu''\<rparr>, ?on)]
               = Inr (map ?env ?joined)"
    by (simp only: eval_joins.simps resolve_key_column_usage [OF assms] sum.case product joined)
  have kept: "keep_where (holds_all ?conds) (map ?env ?joined) = Inr (map ?env (key_pairs cat s t))"
    unfolding key_pairs_def
    by (rule keep_where_map_total) (auto simp only: holds_all_primary_key split: prod.splits)
  have rows: "comprehension (project [(Some ''kcu'', ''column_name'')]) (map ?env (key_pairs cat s t))
                = Inr (map (\<lambda>(k, u). [SqlStr (kcu_column u)]) (key_pairs cat s t))"
    by (rule comprehension_map_total) (auto simp only: project_key_column split: prod.splits)
  show ?thesis
    by (simp add: warehouse_conn_def parse_pk_sql run_select_def
        resolve_table_constraints [OF assms] joins kept order_by_def rows
        del: eval_joins.simps)
qed

subsection \<open>Merging columns and keys\<close>

lemma row_get_in_range: "i < length r \<Longrightarrow> row_get r i = Inr (r ! i)"
  by (simp add: row_get_def)

lemma column_of_row_wide:
  assumes "2 \<le> length r"
  shows "column_of_row pk r = Inr \<lparr>name = r ! 0, data_type = r ! 1, is_primary_key = (r ! 0 \<in> pk)\<rparr>"
proof -
  from assms have "0 < length r" and "1 < length r"
    by auto
  then have "row_get r 0 = Inr (r ! 0)" and "row_get r 1 = Inr (r ! 1)"
    by (simp_all only: row_get_in_range)
  then show ?thesis
    by (simp only: column_of_row_def sum.case)
qed

lemma get_columns_merge:
  assumes cols: "conn (columns_sql database) [SqlStr (str_or schema ''PUBLIC''), SqlStr table] = Inr cur"
    and keys: "conn (pk_sql database) [SqlStr (str_or schema ''PUBLIC''), SqlStr table] = Inr pk_cur"
    and wide: "\<forall>r \<in> set (pending cur). 2 \<le> length r"
    and keyed: "\<forall>r \<in> set (pending pk_cur). 1 \<le> length r"
  shows "get_columns conn table database schema =
           Inr (map (\<lambda>r. \<lparr>name = r ! 0, data_type = r ! 1,
                           is_primary_key = (r ! 0 \<in> (\<lambda>k. k ! 0) ` set (pending pk_cur))\<rparr>)
                  (pending cur))"
proof -
  have names: "comprehension (\<lambda>r. row_get r 0) (pending pk_cur) = Inr (map (\<lambda>k. k ! 0) (pending pk_cur))"
    by (rule comprehension_total) (use keyed in \<open>simp add: row_get_in_range Suc_le_eq\<close>)
  have merged: "comprehension (column_of_row (set (map (\<lambda>k. k ! 0) (pending pk_cur)))) (pending cur)
      = Inr (map (\<lambda>r. \<lparr>name = r ! 0, data_type = r ! 1,
                        is_primary_key = (r ! 0 \<in> set (map (\<lambda>k. k ! 0) (pending pk_cur)))\<rparr>)
               (pending cur))"
    by (rule comprehension_total) (use wide in \<open>simp add: column_of_row_wide\<close>)
  show ?thesis
    using cols keys names merged
    by (simp add: get_columns_def fetchall_def Let_def)
qed

subsection \<open>Claims: identifier quoting\<close>

text \<open>
  Claim C2. For every string \<open>ident\<close>, also one that holds double quotes,
  \<^const>\<open>quote_identifier\<close> doubles each embedded double quote and wraps the result in
  double quotes, and reading the result back (stripping the outer quotes, collapsing each
  doubled quote) gives \<open>ident\<close> again. The lexer of the reference warehouse reads the
  result as one quoted-identifier token that names \<open>ident\<close>. The name
  \<^verbatim>\<open>first"name\<close> is quoted as \<^verbatim>\<open>"first""name"\<close>.
\<close>

theorem quote_identifier_roundtrip:
  \<open>quote_identifier ident = [dq] @ concat (map (\<lambda>c. if c = dq then [dq, dq] else [c]) ident) @ [dq]
   \<and> unquote_identifier (quote_identifier ident) = Some ident
   \<and> tokenize Start (quote_identifier ident) = Some [Quoted ident]
   \<and> quote_identifier ''first"name'' = ''"first""name"''\<close>
proof -
  have shape: "quote_identifier ident = [dq] @ str_replace_char dq [dq, dq] ident @ [dq]"
    by (simp add: quote_identifier_def)
  have roundtrip: "unquote_identifier (quote_identifier ident) = Some ident"
    unfolding shape unquote_identifier_def strip_outer_quotes_wrap
    by (simp add: collapse_doubled_escape)
  have example: \<open>quote_identifier ''first"name'' = ''"first""name"''\<close>
    by (simp add: quote_identifier_def str_replace_char_def dq_def)
  have token: "tokenize Start (quote_identifier ident) = Some [Quoted ident]"
    using tokenize_quote_identifier [of ident "[]"] by simp
  from shape roundtrip token example show ?thesis
    by (simp add: str_replace_char_def)
qed

subsection \<open>Claims: the preview query\<close>

text \<open>
  Claim C1. The claim is that \<^const>\<open>build_select_query\<close> passes every identifier
  component through \<^const>\<open>quote_identifier\<close>. The source interpolates the table name
  between literal quotes without escaping it: for the table name \<^verbatim>\<open>first"name\<close>
  it returns \<^verbatim>\<open>SELECT * FROM "PUBLIC"."first"name" LIMIT 10\<close>, where the claim
  asks for \<^verbatim>\<open>SELECT * FROM "PUBLIC"."first""name" LIMIT 10\<close>.
\<close>

theorem build_select_query_unescaped:
  \<open>build_select_query ''first"name'' 10 None None = ''SELECT * FROM "PUBLIC"."first"name" LIMIT 10''
   \<and> build_select_query_spec ''first"name'' 10 None = ''SELECT * FROM "PUBLIC"."first""name" LIMIT 10''
   \<and> build_select_query ''first"name'' 10 None None \<noteq> build_select_query_spec ''first"name'' 10 None\<close>
  by (simp add: build_select_query_def build_select_query_spec_def quote_identifier_def
      str_replace_char_def default_schema_def dq_def str_int_def str_nat.simps digit_char_def)

text \<open>
  Claim C10. \<^const>\<open>build_select_query\<close> does not read its database argument: any two
  database values give the same string, and that string is built from the fixed text of
  the query, the schema, the table and the limit alone.
\<close>

theorem build_select_query_ignores_database:
  \<open>build_select_query table limit d1 schema = build_select_query table limit d2 schema
   \<and> build_select_query table limit d1 schema =
       ''SELECT * FROM "'' @ str_or schema ''PUBLIC'' @ ''"."'' @ table @ ''" LIMIT '' @ str_int limit\<close>
  by (simp add: build_select_query_def)

text \<open>
  Where the source and the contract agree: when neither the table name nor the schema
  name holds a double quote, and the schema is omitted or not empty, the interpolated
  quotes are what \<^const>\<open>quote_identifier\<close> produces. The scenario of the
  specification, table \<^verbatim>\<open>orders\<close> in schema \<^verbatim>\<open>sales\<close> with limit 10, is
  such a case.
\<close>

theorem build_select_query_quote_free:
  assumes "dq \<notin> set table"
    and "\<forall>s. schema = Some s \<longrightarrow> s \<noteq> [] \<and> dq \<notin> set s"
  shows "build_select_query table limit database schema = build_select_query_spec table limit schema"
proof (cases schema)
  case None
  have "dq \<notin> set ''PUBLIC''"
    by (simp add: dq_def)
  with assms(1) None show ?thesis
    by (simp add: build_select_query_def build_select_query_spec_def default_schema_def
        quote_identifier_plain dq_def)
next
  case (Some s)
  with assms show ?thesis
    by (simp add: build_select_query_def build_select_query_spec_def quote_identifier_plain dq_def)
qed

theorem build_select_query_quote_free_witness:
  \<open>build_select_query ''orders'' 10 None (Some ''sales'') = ''SELECT * FROM "sales"."orders" LIMIT 10''
   \<and> build_select_query_spec ''orders'' 10 (Some ''sales'') = ''SELECT * FROM "sales"."orders" LIMIT 10''\<close>
proof -
  have same: "build_select_query ''orders'' 10 None (Some ''sales'')
      = build_select_query_spec ''orders'' 10 (Some ''sales'')"
    using build_select_query_quote_free [of "''orders''" "Some ''sales''" 10 None]
    by (simp add: dq_def)
  have \<open>build_select_query ''orders'' 10 None (Some ''sales'') = ''SELECT * FROM "sales"."orders" LIMIT 10''\<close>
    by (simp add: build_select_query_def str_int_def str_nat.simps digit_char_def)
  with same show ?thesis
    by simp
qed

subsection \<open>Claims: query executor\<close>

text \<open>
  Claim C3. Let the executed query leave \<open>n\<close> rows on the cursor. With a row ceiling
  \<open>max_rows = k\<close> (a row count, \<open>k \<ge> 0\<close>): if \<open>n > k\<close>, \<^const>\<open>execute_query\<close>
  returns exactly the first \<open>k\<close> rows and \<open>truncated = True\<close>; if \<open>n \<le> k\<close>, it returns
  all \<open>n\<close> rows and \<open>truncated = False\<close>; and it takes at most \<open>k + 1\<close> rows from the
  cursor. With \<open>max_rows\<close> omitted it returns all rows and \<open>truncated = False\<close>.
\<close>

theorem execute_query_truncation:
  assumes "conn query [] = Inr cur"
  shows "(0 \<le> k \<longrightarrow>
           (\<exists>columns rows truncated cur'.
              run_execute_query conn query (Some k) = Inr ((columns, rows, truncated), cur')
              \<and> execute_query conn query (Some k) = Inr (columns, rows, truncated)
              \<and> (k < int (length (pending cur)) \<longrightarrow>
                    rows = take (nat k) (pending cur) \<and> int (length rows) = k \<and> truncated)
              \<and> (int (length (pending cur)) \<le> k \<longrightarrow> rows = pending cur \<and> \<not> truncated)
              \<and> int (rows_fetched cur cur') \<le> k + 1))
       \<and> (\<exists>columns cur'.
              run_execute_query conn query None = Inr ((columns, pending cur, False), cur')
              \<and> execute_query conn query None = Inr (columns, pending cur, False))"
proof (intro conjI impI)
  assume k: "0 \<le> k"
  let ?n = "int (length (pending cur))"
  let ?rows = "if k < ?n then take (nat k) (pending cur) else pending cur"
  let ?cur' = "cur\<lparr>pending := drop (nat (k + 1)) (pending cur)\<rparr>"
  have run: "run_execute_query conn query (Some k) = Inr ((column_names cur, ?rows, k < ?n), ?cur')"
    using run_execute_query_max_rows [of conn query cur k] assms k by simp
  have res: "execute_query conn query (Some k) = Inr (column_names cur, ?rows, k < ?n)"
    by (simp add: execute_query_def run)
  have big: "k < ?n \<longrightarrow> ?rows = take (nat k) (pending cur) \<and> int (length ?rows) = k \<and> k < ?n"
    using k by simp
  have small: "?n \<le> k \<longrightarrow> ?rows = pending cur \<and> \<not> k < ?n"
    by simp
  have fetched: "int (rows_fetched cur ?cur') \<le> k + 1"
    using k by (simp add: rows_fetched_def)
  from run res big small fetched
  show "\<exists>columns rows truncated cur'.
              run_execute_query conn query (Some k) = Inr ((columns, rows, truncated), cur')
              \<and> execute_query conn query (Some k) = Inr (columns, rows, truncated)
              \<and> (k < int (length (pending cur)) \<longrightarrow>
                    rows = take (nat k) (pending cur) \<and> int (length rows) = k \<and> truncated)
              \<and> (int (length (pending cur)) \<le> k \<longrightarrow> rows = pending cur \<and> \<not> truncated)
              \<and> int (rows_fetched cur cur') \<le> k + 1"
    by blast
next
  have run: "run_execute_query conn query None =
      Inr ((column_names cur, pending cur, False), cur\<lparr>pending := []\<rparr>)"
    using run_execute_query_all_rows [of conn query cur] assms by simp
  then have "execute_query conn query None = Inr (column_names cur, pending cur, False)"
    by (simp add: execute_query_def)
  with run show "\<exists>columns cur'.
              run_execute_query conn query None = Inr ((columns, pending cur, False), cur')
              \<and> execute_query conn query None = Inr (columns, pending cur, False)"
    by blast
qed

text \<open>
  A cursor holding three rows: with \<open>max_rows = 2\<close> the first two come back and the
  result is marked truncated; with \<open>max_rows = 3\<close> and with no ceiling all three come
  back, not truncated.
\<close>

theorem execute_query_truncation_witness:
  "(\<exists>columns. execute_query
        (\<lambda>q p. Inr \<lparr>description = Some [(''N'', 0)],
                     pending = [[SqlInt 1], [SqlInt 2], [SqlInt 3]], rowcount = Some 3\<rparr>)
        ''SELECT n FROM t'' (Some 2)
       = Inr (columns, [[SqlInt 1], [SqlInt 2]], True))
   \<and> (\<exists>columns. execute_query
        (\<lambda>q p. Inr \<lparr>description = Some [(''N'', 0)],
                     pending = [[SqlInt 1], [SqlInt 2], [SqlInt 3]], rowcount = Some 3\<rparr>)
        ''SELECT n FROM t'' (Some 3)
       = Inr (columns, [[SqlInt 1], [SqlInt 2], [SqlInt 3]], False))
   \<and> (\<exists>columns. execute_query
        (\<lambda>q p. Inr \<lparr>description = Some [(''N'', 0)],
                     pending = [[SqlInt 1], [SqlInt 2], [SqlInt 3]], rowcount = Some 3\<rparr>)
        ''SELECT n FROM t'' None
       = Inr (columns, [[SqlInt 1], [SqlInt 2], [SqlInt 3]], False))"
proof -
  let ?cur = "\<lparr>description = Some [(''N'', 0)],
               pending = [[SqlInt 1], [SqlInt 2], [SqlInt 3]], rowcount = Some 3\<rparr>"
  let ?conn = "(\<lambda>q p. Inr ?cur) :: connection"
  have c: "?conn ''SELECT n FROM t'' [] = Inr ?cur"
    by simp
  have two: "\<exists>columns. execute_query ?conn ''SELECT n FROM t'' (Some 2)
               = Inr (columns, [[SqlInt 1], [SqlInt 2]], True)"
    using execute_query_truncation [of ?conn "''SELECT n FROM t''" ?cur 2] c by auto
  have three: "\<exists>columns. execute_query ?conn ''SELECT n FROM t'' (Some 3)
               = Inr (columns, [[SqlInt 1], [SqlInt 2], [SqlInt 3]], False)"
    using execute_query_truncation [of ?conn "''SELECT n FROM t''" ?cur 3] c by auto
  have all: "\<exists>columns. execute_query ?conn ''SELECT n FROM t'' None
               = Inr (columns, [[SqlInt 1], [SqlInt 2], [SqlInt 3]], False)"
    using execute_query_truncation [of ?conn "''SELECT n FROM t''" ?cur 0] c by auto
  from two three all show ?thesis
    by blast
qed

text \<open>
  Claim C8. When the executed query leaves no descriptor on the cursor
  (\<^verbatim>\<open>cursor.description\<close> is \<^verbatim>\<open>None\<close>), \<^const>\<open>execute_query\<close> returns with
  the empty sequence of column names; when there is a descriptor, the column names are
  the descriptor's names, in its order. The row ceiling, when one is given, is a row
  count.
\<close>

theorem execute_query_columns:
  assumes "conn query [] = Inr cur" and "\<forall>m. max_rows = Some m \<longrightarrow> 0 \<le> m"
  shows "(description cur = None \<longrightarrow>
            (\<exists>rows truncated. execute_query conn query max_rows = Inr ([], rows, truncated)))
       \<and> (\<forall>ds. description cur = Some ds \<longrightarrow>
            (\<exists>rows truncated. execute_query conn query max_rows = Inr (map fst ds, rows, truncated)))"
proof -
  have "\<exists>rows truncated. execute_query conn query max_rows = Inr (column_names cur, rows, truncated)"
  proof (cases max_rows)
    case None
    have "execute_query conn query None = Inr (column_names cur, pending cur, False)"
      using run_execute_query_all_rows [of conn query cur] assms(1)
      by (simp add: execute_query_def)
    with None show ?thesis by blast
  next
    case (Some m)
    with assms(2) have "0 \<le> m" by simp
    then have "execute_query conn query (Some m) =
        Inr (column_names cur,
             (if m < int (length (pending cur)) then take (nat m) (pending cur) else pending cur),
             m < int (length (pending cur)))"
      using run_execute_query_max_rows [of conn query cur m] assms(1)
      by (simp add: execute_query_def)
    with Some show ?thesis by blast
  qed
  then show ?thesis
    by (auto simp add: column_names_def)
qed

theorem execute_query_columns_witness:
  "execute_query (\<lambda>q p. Inr \<lparr>description = None, pending = [], rowcount = Some 0\<rparr>)
       ''CREATE TABLE t (a INT)'' None = Inr ([], [], False)
   \<and> execute_query
        (\<lambda>q p. Inr \<lparr>description = Some [(''A'', 0), (''B'', 2)],
                     pending = [[SqlInt 1, SqlStr ''x'']], rowcount = Some 1\<rparr>)
        ''SELECT a, b FROM t'' (Some 10)
       = Inr ([''A'', ''B''], [[SqlInt 1, SqlStr ''x'']], False)"
proof -
  let ?c1 = "(\<lambda>q p. Inr \<lparr>description = None, pending = [], rowcount = Some 0\<rparr>) :: connection"
  let ?c2 = "(\<lambda>q p. Inr \<lparr>description = Some [(''A'', 0), (''B'', 2)],
                     pending = [[SqlInt 1, SqlStr ''x'']], rowcount = Some 1\<rparr>) :: connection"
  have a: "\<exists>rows truncated. execute_query ?c1 ''CREATE TABLE t (a INT)'' None = Inr ([], rows, truncated)"
    using execute_query_columns [of ?c1 "''CREATE TABLE t (a INT)''" _ None] by simp
  have b: "\<exists>rows truncated. execute_query ?c2 ''SELECT a, b FROM t'' (Some 10) = Inr ([''A'', ''B''], rows, truncated)"
    using execute_query_columns [of ?c2 "''SELECT a, b FROM t''" _ "Some 10"] by simp
  from a b show ?thesis
    by (auto simp add: execute_query_def run_execute_query_def fetchall_def fetchmany_def Let_def)
qed

text \<open>
  Claim C9. \<^const>\<open>execute_non_query\<close> returns the row count the cursor reports, and
  \<open>- 1\<close> when the cursor reports none (\<^verbatim>\<open>rowcount\<close> is \<^verbatim>\<open>None\<close>); in
  neither case does it raise.
\<close>

theorem execute_non_query_rowcount:
  assumes "conn query [] = Inr cur"
  shows "(rowcount cur = None \<longrightarrow> execute_non_query conn query = Inr (- 1))
       \<and> (\<forall>n. rowcount cur = Some n \<longrightarrow> execute_non_query conn query = Inr n)"
  using assms by (simp add: execute_non_query_def)

theorem execute_non_query_rowcount_witness:
  "execute_non_query (\<lambda>q p. Inr \<lparr>description = None, pending = [], rowcount = None\<rparr>)
       ''CREATE TABLE t (a INT)'' = Inr (- 1)
   \<and> execute_non_query (\<lambda>q p. Inr \<lparr>description = None, pending = [], rowcount = Some 3\<rparr>)
       ''DELETE FROM t'' = Inr 3"
  using execute_non_query_rowcount
          [of "\<lambda>q p. Inr \<lparr>description = None, pending = [], rowcount = None\<rparr>"
              "''CREATE TABLE t (a INT)''" "\<lparr>description = None, pending = [], rowcount = None\<rparr>"]
        execute_non_query_rowcount
          [of "\<lambda>q p. Inr \<lparr>description = None, pending = [], rowcount = Some 3\<rparr>"
              "''DELETE FROM t''" "\<lparr>description = None, pending = [], rowcount = Some 3\<rparr>"]
  by simp

subsection \<open>Claims: indexes and triggers\<close>

text \<open>
  Claim C7. For every connection and every database argument, \<^const>\<open>get_indexes\<close> and
  \<^const>\<open>get_triggers\<close> return the empty sequence; neither raises.
\<close>

theorem get_indexes_get_triggers_empty:
  "get_indexes conn database = Inr [] \<and> get_triggers conn database = Inr []"
  by (simp add: get_indexes_def get_triggers_def)

subsection \<open>Claims: listing tables\<close>

text \<open>
  Claim C5. The name \<^verbatim>\<open>get_tables\<close> is bound twice in the class body; the class
  namespace holds the later binding, which is \<^const>\<open>get_tables\<close>, not the earlier
  \<^verbatim>\<open>SHOW TABLES\<close> version. \<^const>\<open>get_tables\<close> and
  \<^const>\<open>get_tables_via_info_schema\<close> are the same function of the connection and the
  database: both execute the one information-schema statement, which restricts the rows
  to base tables outside the \<^verbatim>\<open>INFORMATION_SCHEMA\<close> namespace, and return the
  pairs of its first two columns (schema, name).
\<close>

theorem get_tables_is_info_schema:
  \<open>class_namespace ''get_tables'' = Some get_tables
   \<and> class_namespace ''get_tables'' \<noteq> Some get_tables_show_tables
   \<and> get_tables = get_tables_via_info_schema
   \<and> get_tables conn database =
       (case conn (tables_sql database) [] of
          Inl e \<Rightarrow> Inl e
        | Inr cur \<Rightarrow> comprehension (row_pair 0 1) (pending cur))
   \<and> tables_sql database =
       ''SELECT table_schema, table_name FROM '' @ db_prefix database @
       ''information_schema.tables WHERE table_type = 'BASE TABLE' AND table_schema != 'INFORMATION_SCHEMA' ORDER BY table_schema, table_name''\<close>
proof -
  have same: "get_tables = get_tables_via_info_schema"
    by (intro ext) (simp add: get_tables_def)
  have bound: "class_namespace ''get_tables'' = Some get_tables"
    by (simp add: class_namespace_def class_body_def)
  let ?conn = "(\<lambda>q p. if q = ''SHOW TABLES'' then Inl ProgrammingError
                        else Inr \<lparr>description = None, pending = [], rowcount = None\<rparr>) :: connection"
  have "get_tables_show_tables ?conn None = Inl ProgrammingError"
    by (simp add: get_tables_show_tables_def show_tables_sql_def)
  moreover have "get_tables ?conn None = Inr []"
    by (simp add: get_tables_def get_tables_via_info_schema_def tables_sql_def fetchall_def)
  ultimately have "get_tables \<noteq> get_tables_show_tables"
    by (metis Inl_Inr_False)
  with bound have shadowed: "class_namespace ''get_tables'' \<noteq> Some get_tables_show_tables"
    by simp
  have route: "get_tables conn database =
       (case conn (tables_sql database) [] of
          Inl e \<Rightarrow> Inl e
        | Inr cur \<Rightarrow> comprehension (row_pair 0 1) (pending cur))"
    by (simp add: get_tables_def get_tables_via_info_schema_def fetchall_def split: sum.splits)
  from bound shadowed same route show ?thesis
    by (simp add: tables_sql_def)
qed

text \<open>
  Claim C6. On a connection to a warehouse, for a database argument that addresses one of
  its catalogs, \<^const>\<open>get_tables\<close> returns the (schema, name) pairs of exactly the
  entries of \<^verbatim>\<open>information_schema.tables\<close> that are base tables (views and every
  other table type are left out) and whose schema is not \<^verbatim>\<open>INFORMATION_SCHEMA\<close>,
  in ascending order of schema, then name.
\<close>

theorem get_tables_base_tables_sorted:
  assumes "catalog_of w database = Some cat"
  shows "\<exists>ts. get_tables (warehouse_conn w) database
                = Inr (map (\<lambda>t. (SqlStr (t_schema t), SqlStr (t_name t))) ts)
           \<and> ts = sort_key (\<lambda>t. (t_schema t, t_name t))
                    (filter (\<lambda>t. t_type t = ''BASE TABLE'' \<and> t_schema t \<noteq> ''INFORMATION_SCHEMA'')
                       (tables_view cat))
           \<and> set ts = {t \<in> set (tables_view cat).
                         t_type t = ''BASE TABLE'' \<and> t_schema t \<noteq> ''INFORMATION_SCHEMA''}
           \<and> sorted (map (\<lambda>t. (t_schema t, t_name t)) ts)"
proof -
  let ?kept = "filter is_listed_table (tables_view cat)"
  let ?ts = "sort_key (\<lambda>t::table_entry. (t_schema t, t_name t)) ?kept"
  let ?vals = "\<lambda>t::table_entry. [SqlStr (t_schema t), SqlStr (t_name t)]"
  let ?pair = "\<lambda>t::table_entry. (SqlStr (t_schema t), SqlStr (t_name t))"
  have same: "sort_key (\<lambda>t. map sort_rank [SqlStr (t_schema t), SqlStr (t_name t)]) ?kept = ?ts"
    by (rule sort_key_cong_le) (rule table_key_le)
  obtain d n where answer: "warehouse_conn w (tables_sql database) [] =
      Inr \<lparr>description = d, pending = map ?vals ?ts, rowcount = n\<rparr>"
    using warehouse_tables_answer [OF assms] unfolding same by blast
  have pairs: "comprehension (row_pair 0 1) (map ?vals ?ts) = Inr (map ?pair ?ts)"
    by (rule comprehension_map_total) (rule row_pair_two)
  have result: "get_tables (warehouse_conn w) database = Inr (map ?pair ?ts)"
    by (simp add: get_tables_def get_tables_via_info_schema_def answer fetchall_def pairs
        del: One_nat_def)
  have listed: "is_listed_table = (\<lambda>t. t_type t = ''BASE TABLE'' \<and> t_schema t \<noteq> ''INFORMATION_SCHEMA'')"
    by (rule ext) (simp add: is_listed_table_def)
  have members: "set ?ts = {t \<in> set (tables_view cat). is_listed_table t}"
    by simp
  have ordered: "sorted (map (\<lambda>t. (t_schema t, t_name t)) ?ts)"
    by (rule sorted_sort_key)
  from result members ordered show ?thesis
    unfolding listed by blast
qed

theorem get_tables_base_tables_sorted_witness:
  "catalog_of demo_warehouse (Some ''DB'') = Some demo_catalog
   \<and> get_tables (warehouse_conn demo_warehouse) (Some ''DB'')
       = Inr [(SqlStr ''PUBLIC'', SqlStr ''T''),
              (SqlStr ''SALES'', SqlStr ''CUSTOMERS''),
              (SqlStr ''SALES'', SqlStr ''ORDERS'')]"
proof -
  have known: "catalog_of demo_warehouse (Some ''DB'') = Some demo_catalog"
    by (simp add: catalog_of_def demo_warehouse_def)
  have listed: "sort_key (\<lambda>t. (t_schema t, t_name t))
         (filter (\<lambda>t. t_type t = ''BASE TABLE'' \<and> t_schema t \<noteq> ''INFORMATION_SCHEMA'')
            (tables_view demo_catalog))
      = [\<lparr>t_schema = ''PUBLIC'', t_name = ''T'', t_type = ''BASE TABLE''\<rparr>,
         \<lparr>t_schema = ''SALES'', t_name = ''CUSTOMERS'', t_type = ''BASE TABLE''\<rparr>,
         \<lparr>t_schema = ''SALES'', t_name = ''ORDERS'', t_type = ''BASE TABLE''\<rparr>]"
    by (simp add: demo_catalog_def)
  from get_tables_base_tables_sorted [OF known] known show ?thesis
    unfolding listed by auto
qed

subsection \<open>Claims: columns and primary keys\<close>

text \<open>
  Claim C4. \<^const>\<open>get_columns\<close> runs two statements, the columns statement and the
  key-constraint statement, and merges their answers by column name.

  For every connection that answers both statements (with rows wide enough to be indexed),
  the result has one \<^verbatim>\<open>ColumnInfo\<close> per row of the columns statement, in the order
  of the rows, and its primary-key flag is true exactly when its name is among the names
  the key statement reported. The fetch order of either answer does not matter: a
  connection that reports the same rows in any other order gives the same columns with
  the same flags, in the order of its own column rows.

  On a connection to a warehouse, for a database argument that addresses one of its
  catalogs, the key statement is answered, the flag of each column is membership of its
  name in that answer, and the columns are those of the schema (the default
  \<^verbatim>\<open>PUBLIC\<close> when none is given) and table, in ascending ordinal position.
\<close>

theorem get_columns_primary_key_merge:
  "(conn (columns_sql database) [SqlStr (str_or schema ''PUBLIC''), SqlStr table] = Inr cur
    \<and> conn (pk_sql database) [SqlStr (str_or schema ''PUBLIC''), SqlStr table] = Inr pk_cur
    \<and> (\<forall>r \<in> set (pending cur). 2 \<le> length r)
    \<and> (\<forall>r \<in> set (pending pk_cur). 1 \<le> length r)
    \<longrightarrow>
      get_columns conn table database schema =
        Inr (map (\<lambda>r. \<lparr>name = r ! 0, data_type = r ! 1,
                        is_primary_key = (r ! 0 \<in> (\<lambda>k. k ! 0) ` set (pending pk_cur))\<rparr>)
               (pending cur))
      \<and> (\<forall>conn' cur' pk_cur'.
            conn' (columns_sql database) [SqlStr (str_or schema ''PUBLIC''), SqlStr table] = Inr cur'
            \<and> conn' (pk_sql database) [SqlStr (str_or schema ''PUBLIC''), SqlStr table] = Inr pk_cur'
            \<and> mset (pending cur') = mset (pending cur)
            \<and> mset (pending pk_cur') = mset (pending pk_cur)
            \<longrightarrow> (\<exists>cols cols'.
                   get_columns conn table database schema = Inr cols
                   \<and> get_columns conn' table database schema = Inr cols'
                   \<and> mset cols' = mset cols)))
   \<and> (catalog_of w database = Some cat
        \<longrightarrow> (\<exists>pk_cur cs.
               warehouse_conn w (pk_sql database) [SqlStr (str_or schema ''PUBLIC''), SqlStr table]
                 = Inr pk_cur
               \<and> get_columns (warehouse_conn w) table database schema =
                   Inr (map (\<lambda>c. \<lparr>name = SqlStr (c_name c), data_type = SqlStr (c_data_type c),
                                   is_primary_key =
                                     (SqlStr (c_name c) \<in> (\<lambda>k. k ! 0) ` set (pending pk_cur))\<rparr>) cs)
               \<and> cs = sort_key c_ordinal
                        (filter (\<lambda>c. c_schema c = str_or schema ''PUBLIC'' \<and> c_table c = table)
                           (columns_view cat))
               \<and> sorted (map c_ordinal cs)))"
proof (intro conjI impI)
  let ?params = "[SqlStr (str_or schema ''PUBLIC''), SqlStr table]"
  let ?merge = "\<lambda>keys r. \<lparr>name = r ! 0, data_type = r ! 1,
                           is_primary_key = (r ! 0 \<in> (\<lambda>k. k ! 0) ` set keys)\<rparr>"
  assume hyps: "conn (columns_sql database) ?params = Inr cur
    \<and> conn (pk_sql database) ?params = Inr pk_cur
    \<and> (\<forall>r \<in> set (pending cur). 2 \<le> length r)
    \<and> (\<forall>r \<in> set (pending pk_cur). 1 \<le> length r)"
  then have result: "get_columns conn table database schema
      = Inr (map (?merge (pending pk_cur)) (pending cur))"
    using get_columns_merge [of conn database schema table cur pk_cur] by blast
  then show "get_columns conn table database schema
      = Inr (map (?merge (pending pk_cur)) (pending cur))" .
  show "\<forall>conn' cur' pk_cur'.
            conn' (columns_sql database) ?params = Inr cur'
            \<and> conn' (pk_sql database) ?params = Inr pk_cur'
            \<and> mset (pending cur') = mset (pending cur)
            \<and> mset (pending pk_cur') = mset (pending pk_cur)
            \<longrightarrow> (\<exists>cols cols'.
                   get_columns conn table database schema = Inr cols
                   \<and> get_columns conn' table database schema = Inr cols'
                   \<and> mset cols' = mset cols)"
  proof (intro allI impI)
    fix conn' :: connection and cur' pk_cur'
    assume other: "conn' (columns_sql database) ?params = Inr cur'
            \<and> conn' (pk_sql database) ?params = Inr pk_cur'
            \<and> mset (pending cur') = mset (pending cur)
            \<and> mset (pending pk_cur') = mset (pending pk_cur)"
    then have same_rows: "set (pending cur') = set (pending cur)"
      and same_keys: "set (pending pk_cur') = set (pending pk_cur)"
      by (metis set_mset_mset)+
    from hyps same_rows same_keys
    have "\<forall>r \<in> set (pending cur'). 2 \<le> length r" and "\<forall>r \<in> set (pending pk_cur'). 1 \<le> length r"
      by simp_all
    with other have "get_columns conn' table database schema
        = Inr (map (?merge (pending pk_cur')) (pending cur'))"
      using get_columns_merge [of conn' database schema table cur' pk_cur'] by blast
    then have result': "get_columns conn' table database schema
        = Inr (map (?merge (pending pk_cur)) (pending cur'))"
      by (simp only: same_keys)
    have "mset (map (?merge (pending pk_cur)) (pending cur'))
        = mset (map (?merge (pending pk_cur)) (pending cur))"
      using other by (simp only: mset_map)
    with result result' show "\<exists>cols cols'.
                   get_columns conn table database schema = Inr cols
                   \<and> get_columns conn' table database schema = Inr cols'
                   \<and> mset cols' = mset cols"
      by blast
  qed
next
  let ?s = "str_or schema ''PUBLIC''"
  let ?params = "[SqlStr ?s, SqlStr table]"
  let ?cs = "sort_key c_ordinal
               (filter (\<lambda>c. c_schema c = ?s \<and> c_table c = table) (columns_view cat))"
  let ?vals = "\<lambda>c::column_entry. [SqlStr (c_name c), SqlStr (c_data_type c), SqlInt (c_ordinal c)]"
  assume known: "catalog_of w database = Some cat"
  obtain d n where cols: "warehouse_conn w (columns_sql database) ?params
      = Inr \<lparr>description = d, pending = map ?vals ?cs, rowcount = n\<rparr>"
    using warehouse_columns_answer [OF known, of ?s table] by blast
  obtain d' n' where keys: "warehouse_conn w (pk_sql database) ?params
      = Inr \<lparr>description = d',
             pending = map (\<lambda>(k, u). [SqlStr (kcu_column u)]) (key_pairs cat ?s table),
             rowcount = n'\<rparr>"
    using warehouse_pk_answer [OF known, of ?s table] by blast
  let ?cur = "\<lparr>description = d, pending = map ?vals ?cs, rowcount = n\<rparr>"
  let ?pk_cur = "\<lparr>description = d',
             pending = map (\<lambda>(k, u). [SqlStr (kcu_column u)]) (key_pairs cat ?s table),
             rowcount = n'\<rparr>"
  have wide: "\<forall>r \<in> set (pending ?cur). 2 \<le> length r"
    by auto
  have keyed: "\<forall>r \<in> set (pending ?pk_cur). 1 \<le> length r"
    by auto
  have "get_columns (warehouse_conn w) table database schema =
      Inr (map (\<lambda>r. \<lparr>name = r ! 0, data_type = r ! 1,
                      is_primary_key = (r ! 0 \<in> (\<lambda>k. k ! 0) ` set (pending ?pk_cur))\<rparr>)
             (pending ?cur))"
    using get_columns_merge [of "warehouse_conn w" database schema table ?cur ?pk_cur]
      cols keys wide keyed
    by blast
  then have result: "get_columns (warehouse_conn w) table database schema =
      Inr (map (\<lambda>c. \<lparr>name = SqlStr (c_name c), data_type = SqlStr (c_data_type c),
                      is_primary_key =
                        (SqlStr (c_name c) \<in> (\<lambda>k. k ! 0) ` set (pending ?pk_cur))\<rparr>) ?cs)"
    by (simp add: comp_def)
  have ordered: "sorted (map c_ordinal ?cs)"
    by (rule sorted_sort_key)
  from keys result ordered
  show "\<exists>pk_cur cs.
               warehouse_conn w (pk_sql database) ?params = Inr pk_cur
               \<and> get_columns (warehouse_conn w) table database schema =
                   Inr (map (\<lambda>c. \<lparr>name = SqlStr (c_name c), data_type = SqlStr (c_data_type c),
                                   is_primary_key =
                                     (SqlStr (c_name c) \<in> (\<lambda>k. k ! 0) ` set (pending pk_cur))\<rparr>) cs)
               \<and> cs = ?cs
               \<and> sorted (map c_ordinal cs)"
    by blast
qed

theorem get_columns_primary_key_merge_witness:
  "get_columns
     (\<lambda>q p. if q = pk_sql None
            then Inr \<lparr>description = None, pending = [[SqlStr ''A'']], rowcount = None\<rparr>
            else Inr \<lparr>description = None,
                      pending = [[SqlStr ''A'', SqlStr ''NUMBER'', SqlInt 1],
                                 [SqlStr ''B'', SqlStr ''TEXT'', SqlInt 2]],
                      rowcount = None\<rparr>)
     ''T'' None None
     = Inr [\<lparr>name = SqlStr ''A'', data_type = SqlStr ''NUMBER'', is_primary_key = True\<rparr>,
            \<lparr>name = SqlStr ''B'', data_type = SqlStr ''TEXT'', is_primary_key = False\<rparr>]
   \<and> get_columns (warehouse_conn demo_warehouse) ''T'' None None
     = Inr [\<lparr>name = SqlStr ''A'', data_type = SqlStr ''NUMBER'', is_primary_key = True\<rparr>,
            \<lparr>name = SqlStr ''B'', data_type = SqlStr ''TEXT'', is_primary_key = False\<rparr>]"
proof -
  let ?pk_cur = "\<lparr>description = None, pending = [[SqlStr ''A'']], rowcount = None\<rparr>"
  let ?cur = "\<lparr>description = None,
                pending = [[SqlStr ''A'', SqlStr ''NUMBER'', SqlInt 1],
                           [SqlStr ''B'', SqlStr ''TEXT'', SqlInt 2]],
                rowcount = None\<rparr>"
  let ?conn = "(\<lambda>q p. if q = pk_sql None then Inr ?pk_cur else Inr ?cur) :: connection"
  have differ: "columns_sql None \<noteq> pk_sql None"
    by (simp add: columns_sql_def pk_sql_def)
  have cols: "?conn (columns_sql None) [SqlStr (str_or None ''PUBLIC''), SqlStr ''T''] = Inr ?cur"
    using differ by simp
  have keys: "?conn (pk_sql None) [SqlStr (str_or None ''PUBLIC''), SqlStr ''T''] = Inr ?pk_cur"
    by simp
  have first: "get_columns ?conn ''T'' None None
     = Inr [\<lparr>name = SqlStr ''A'', data_type = SqlStr ''NUMBER'', is_primary_key = True\<rparr>,
            \<lparr>name = SqlStr ''B'', data_type = SqlStr ''TEXT'', is_primary_key = False\<rparr>]"
    using get_columns_primary_key_merge
            [where conn = ?conn and database = None and schema = None and table = "''T''"
               and cur = ?cur and pk_cur = ?pk_cur]
          cols keys
    by simp
  have known: "catalog_of demo_warehouse None = Some demo_catalog"
    by (simp add: catalog_of_def demo_warehouse_def)
  have pairs: "map (\<lambda>(k, u). [SqlStr (kcu_column u)]) (key_pairs demo_catalog ''PUBLIC'' ''T'')
      = [[SqlStr ''A'']]"
    by (simp add: key_pairs_def demo_catalog_def)
  have sorted_cols: "sort_key c_ordinal
        (filter (\<lambda>c. c_schema c = ''PUBLIC'' \<and> c_table c = ''T'') (columns_view demo_catalog))
      = [\<lparr>c_schema = ''PUBLIC'', c_table = ''T'', c_name = ''A'', c_data_type = ''NUMBER'', c_ordinal = 1\<rparr>,
         \<lparr>c_schema = ''PUBLIC'', c_table = ''T'', c_name = ''B'', c_data_type = ''TEXT'', c_ordinal = 2\<rparr>]"
    by (simp add: demo_catalog_def)
  obtain d n where answer: "warehouse_conn demo_warehouse (pk_sql None) [SqlStr ''PUBLIC'', SqlStr ''T'']
      = Inr \<lparr>description = d, pending = [[SqlStr ''A'']], rowcount = n\<rparr>"
    using warehouse_pk_answer [OF known, of "''PUBLIC''" "''T''"] unfolding pairs by blast
  have second: "get_columns (warehouse_conn demo_warehouse) ''T'' None None
     = Inr [\<lparr>name = SqlStr ''A'', data_type = SqlStr ''NUMBER'', is_primary_key = True\<rparr>,
            \<lparr>name = SqlStr ''B'', data_type = SqlStr ''TEXT'', is_primary_key = False\<rparr>]"
    using get_columns_primary_key_merge
            [where w = demo_warehouse and database = None and schema = None and table = "''T''"
               and cat = demo_catalog]
          known answer sorted_cols
    by auto
  from first second show ?thesis
    by simp
qed

end
